theory Spec2Isabelle
  imports Main "HOL-Library.Sublist" "HOL-Library.Multiset" "HOL-Library.AList"
    "HOL-Library.List_Lexorder"
begin

section \<open>JavaScript primitives used by the extension\<close>

text \<open>
  Strings are lists of 8-bit code units; the numbers that the extension handles (credit
  balances, page numbers, counts, times) are integers. A value that may be \<open>undefined\<close> is an
  \<open>option\<close>. Everything that is thrown on the modelled paths is an instance of the
  JavaScript \<open>Error\<close> class, so an error is its message.
\<close>

datatype error = Error (error_message: string)

text \<open>\<open>a || b\<close> on an optional string: the empty string and \<open>undefined\<close> are falsy.\<close>

fun or_string :: "string option \<Rightarrow> string \<Rightarrow> string" where
  "or_string None d = d"
| "or_string (Some s) d = (if s = [] then d else s)"

text \<open>\<open>a || null\<close> and \<open>a || undefined\<close> on an optional string.\<close>

fun or_null :: "string option \<Rightarrow> string option" where
  "or_null None = None"
| "or_null (Some s) = (if s = [] then None else Some s)"

text \<open>\<open>a || 0\<close> on an optional number: \<open>0\<close> and \<open>undefined\<close> are falsy.\<close>

fun or_zero :: "int option \<Rightarrow> int" where
  "or_zero None = 0"
| "or_zero (Some n) = n"

text \<open>\<open>String.prototype.trim\<close>: the white space and line terminators below code unit 256.\<close>

definition is_white_space :: "char \<Rightarrow> bool" where
  "is_white_space c = (of_char c \<in> {9, 10, 11, 12, 13, 32, 160 :: nat})"

definition trim :: "string \<Rightarrow> string" where
  "trim s = rev (dropWhile is_white_space (rev (dropWhile is_white_space s)))"

text \<open>The decimal numeral of an integer.\<close>

definition digit_char :: "nat \<Rightarrow> char" where
  "digit_char d = ''0123456789'' ! d"

function show_nat :: "nat \<Rightarrow> string" where
  "show_nat n = (if n < 10 then [digit_char n] else show_nat (n div 10) @ [digit_char (n mod 10)])"
  by pat_completeness auto
termination
  by (relation "measure (\<lambda>n. n)") auto

declare show_nat.simps [simp del]

definition decimal :: "int \<Rightarrow> string" where
  "decimal n = (if n < 0 then CHR ''-'' # show_nat (nat (- n)) else show_nat (nat n))"

text \<open>
  A JavaScript number is a double. The number value of a natural number is the nearest
  double, the even one of two equally near: up to 53 bits are kept. A result of \<open>2^1024\<close>
  or more stands for \<open>Infinity\<close>.
\<close>

function bit_length :: "nat \<Rightarrow> nat" where
  "bit_length n = (if n = 0 then 0 else bit_length (n div 2) + 1)"
  by pat_completeness auto
termination
  by (relation "measure (\<lambda>n. n)") auto

declare bit_length.simps [simp del]

definition to_double :: "nat \<Rightarrow> nat" where
  "to_double m =
     (let e = bit_length m
      in if e \<le> 53 then m
         else
           let unit = 2 ^ (e - 53); q = m div unit; r = m mod unit
           in if 2 * r < unit then q * unit
              else if 2 * r = unit then (if even q then q * unit else (q + 1) * unit)
              else (q + 1) * unit)"

text \<open>
  \<open>Number::toString\<close> on a positive integral double \<open>x\<close> of \<open>len\<close> decimal digits: the
  fewest digits \<open>s\<close>, \<open>k\<close> of them, such that \<open>s\<close> followed by zeros reads back as \<open>x\<close>,
  and among such \<open>s\<close> the one nearest to \<open>x\<close>; with all \<open>len\<close> digits it is \<open>x\<close> itself.
  When the next power of ten reads back as \<open>x\<close>, the digits are those of that power. The
  digits are followed by the zeros when the numeral has at most 21 digits, and written
  with an exponent otherwise.
\<close>

definition closest_digits :: "nat \<Rightarrow> nat \<Rightarrow> nat \<Rightarrow> nat option" where
  "closest_digits x len k =
     (let p = 10 ^ (len - k); lo = x div p; hi = lo + 1;
          fits = (\<lambda>s. 10 ^ (k - 1) \<le> s \<and> s < 10 ^ k \<and> to_double (s * p) = x)
      in if fits lo \<and> fits hi then
           (if x - lo * p < hi * p - x then Some lo
            else if hi * p - x < x - lo * p then Some hi
            else if even lo then Some lo
            else Some hi)
         else if fits lo then Some lo
         else if fits hi then Some hi
         else None)"

function shortest_digits :: "nat \<Rightarrow> nat \<Rightarrow> nat \<Rightarrow> nat \<times> nat" where
  "shortest_digits x len k =
     (if len \<le> k then (x, len)
      else case closest_digits x len k of
             Some s \<Rightarrow> (s, k)
           | None \<Rightarrow> shortest_digits x len (k + 1))"
  by pat_completeness auto
termination
  by (relation "measure (\<lambda>(x, len, k). len - k)") auto

declare shortest_digits.simps [simp del]

definition print_double :: "nat \<Rightarrow> string" where
  "print_double x =
     (if x \<ge> 2 ^ 1024 then ''Infinity''
      else
        let len = length (show_nat x);
            (s, k, n) = (if to_double (10 ^ len) = x then (1, 1, len + 1)
                         else case shortest_digits x len 1 of (s, k) \<Rightarrow> (s, k, len));
            digits = show_nat s
        in if n \<le> 21 then digits @ replicate (n - k) (CHR ''0'')
           else (case digits of
                   [] \<Rightarrow> []
                 | d # ds \<Rightarrow> (if ds = [] then [d] else d # CHR ''.'' # ds))
                @ ''e+'' @ show_nat (n - 1))"

text \<open>
  The text a template literal inserts for a number whose JSON numeral, or whose value, is
  the integer \<open>n\<close>. An integer of magnitude up to \<open>2^53\<close> is a double and prints as its
  decimal numeral; a larger one prints as its number value does, so \<open>2^60\<close> prints as
  \<open>1152921504606847000\<close>.
\<close>

definition number_to_string :: "int \<Rightarrow> string" where
  "number_to_string n =
     (if \<bar>n\<bar> \<le> 9007199254740992 then decimal n
      else if n < 0 then CHR ''-'' # print_double (to_double (nat (- n)))
      else print_double (to_double (nat n)))"

text \<open>A value that may be \<open>undefined\<close>, inserted into a template literal.\<close>

fun template_number :: "int option \<Rightarrow> string" where
  "template_number None = ''undefined''"
| "template_number (Some n) = number_to_string n"

text \<open>
  \<open>Array.prototype.sort\<close> with a comparator. The language only fixes that the sort is
  stable and that a comparator result below zero puts the first argument first; the model
  is the stable insertion sort, which inserts each element in turn before the first
  element it compares below.
\<close>

fun insert_by :: "('a \<Rightarrow> 'a \<Rightarrow> int) \<Rightarrow> 'a \<Rightarrow> 'a list \<Rightarrow> 'a list" where
  "insert_by cmp x [] = [x]"
| "insert_by cmp x (y # ys) = (if cmp x y < 0 then x # y # ys else y # insert_by cmp x ys)"

definition sort_by :: "('a \<Rightarrow> 'a \<Rightarrow> int) \<Rightarrow> 'a list \<Rightarrow> 'a list" where
  "sort_by cmp xs = foldl (\<lambda>acc x. insert_by cmp x acc) [] xs"

section \<open>backend.ts: the remote lookup client\<close>

record JobHistory =
  jh_title :: string
  jh_company_name :: string
  jh_current :: bool
  jh_start_year :: int
  jh_start_month :: int
  jh_end_year :: "int option"
  jh_end_month :: "int option"
  jh_seniority :: string
  jh_logo_url :: "string option"
  jh_duration_in_months :: "int option"
  jh_departments :: "string list option"

record FundingEvent =
  fe_amount :: int
  fe_amount_printed :: string
  fe_raised_at :: string
  fe_stage :: string
  fe_link :: string

text \<open>The fields every reply of the paid endpoints may carry.\<close>

record ApiReply =
  error :: bool
  error_code :: "string option"
  message :: "string option"
  balance :: "int option"

record ResponseMobile =
  rm_status :: string
  rm_mobile_international :: "string option"
  rm_mobile_country :: "string option"

record ResponseEmail =
  re_status :: string
  re_email :: "string option"
  re_email_mx_provider :: "string option"

record PersonLocation =
  pl_country :: string
  pl_city :: string
  pl_state :: "string option"
  pl_country_code :: "string option"

record ResponsePerson =
  rp_first_name :: string
  rp_last_name :: string
  rp_full_name :: string
  rp_headline :: "string option"
  rp_linkedin_url :: "string option"
  rp_current_job_title :: "string option"
  rp_job_history :: "JobHistory list option"
  rp_mobile :: "ResponseMobile option"
  rp_email :: "ResponseEmail option"
  rp_location :: "PersonLocation option"

record CompanyLocation =
  cl_country :: string
  cl_city :: string
  cl_raw_address :: "string option"

record Funding =
  fu_total_funding_printed :: string
  fu_latest_funding_stage :: string
  fu_latest_funding_date :: string
  fu_funding_events :: "FundingEvent list option"

record ResponseCompany =
  rc_name :: "string option"
  rc_website :: "string option"
  rc_domain :: "string option"
  rc_type :: "string option"
  rc_industry :: "string option"
  rc_description_ai :: "string option"
  rc_employee_range :: "string option"
  rc_employee_count :: "int option"
  rc_founded :: "int option"
  rc_linkedin_url :: "string option"
  rc_twitter_url :: "string option"
  rc_logo_url :: "string option"
  rc_location :: "CompanyLocation option"
  rc_revenue_range_printed :: "string option"
  rc_funding :: "Funding option"
  rc_keywords :: "string list option"

record EnrichPersonResponse = ApiReply +
  person :: "ResponsePerson option"
  company :: "ResponseCompany option"

record SearchPersonJob =
  sj_title :: string
  sj_company_name :: string
  sj_current :: bool
  sj_seniority :: "string option"
  sj_departments :: "string list option"

record SearchLocation =
  sl_country :: string
  sl_city :: string

text \<open>An element of \<open>results\<close> wraps one person; the list is modelled as the persons.\<close>

record SearchPersonResult =
  person_id :: string
  first_name :: string
  last_name :: string
  full_name :: string
  headline :: "string option"
  linkedin_url :: "string option"
  current_job_title :: "string option"
  job_history :: "SearchPersonJob list option"
  location :: "SearchLocation option"

record Pagination =
  total_results :: int
  page :: int
  total_pages :: int

record SearchPersonResponse = ApiReply +
  results :: "SearchPersonResult list option"
  pagination :: "Pagination option"

text \<open>
  The parsed body of a reply. A JSON value that is neither \<open>null\<close> nor an object has no
  properties, and every read of one gives \<open>undefined\<close>: it is the object with every field
  absent.
\<close>

datatype 'a json = JsonNull | JsonObject 'a

text \<open>
  What \<open>fetch\<close> and \<open>response.json()\<close> give for a request: the call is rejected, the
  body of a reply with some status is not JSON, or a status and a parsed body.
\<close>

datatype 'a http_result =
    FetchRejected string
  | BodyRejected nat string
  | Reply nat "'a json"

record 'b request =
  req_url :: string
  req_api_key :: string
  req_body :: 'b

record EnrichBody =
  eb_first_name :: string
  eb_last_name :: string
  eb_company_website :: string

record SearchBody =
  sb_page :: int
  sb_include :: "string list"

definition response_ok :: "nat \<Rightarrow> bool" where
  "response_ok status = (200 \<le> status \<and> status \<le> 299)"

fun isInsufficientCreditsError :: "('a ApiReply_scheme) json \<Rightarrow> bool" where
  "isInsufficientCreditsError JsonNull = False"
| "isInsufficientCreditsError (JsonObject d) = (error_code d = Some ''INSUFFICIENT_CREDITS'')"

definition getApiKey :: "string option \<Rightarrow> error + string" where
  "getApiKey apiKey =
     (case apiKey of
        None \<Rightarrow> Inl (Error ''API key not configured'')
      | Some k \<Rightarrow> if trim k = [] then Inl (Error ''API key not configured'') else Inr (trim k))"

text \<open>The message of the TypeError that reading a property of \<open>null\<close> throws.\<close>

definition null_read :: "string \<Rightarrow> string" where
  "null_read prop = ''Cannot read properties of null (reading '' @ [CHR 0x27] @ prop @ [CHR 0x27] @ '')''"

text \<open>
  The two checks that follow \<open>response.json()\<close> in both paid lookups; \<open>fallback\<close> is
  the message used when the reply has none. A \<open>null\<close> body is not an insufficient-credits
  error, so it reaches the second check, whose first property read throws.
\<close>

definition check_reply :: "string \<Rightarrow> nat \<Rightarrow> ('a ApiReply_scheme) json \<Rightarrow> error + 'a ApiReply_scheme" where
  "check_reply fallback status data =
     (case data of
        JsonNull \<Rightarrow>
          Inl (Error (if \<not> response_ok status then null_read ''message'' else null_read ''error''))
      | JsonObject d \<Rightarrow>
          if status = 402 \<and> isInsufficientCreditsError data then
            Inl (Error (''Insufficient credits. You have '' @ template_number (balance d)
                        @ '' credits remaining.''))
          else if \<not> response_ok status then Inl (Error (or_string (message d) fallback))
          else if error d then Inl (Error (or_string (message d) fallback))
          else Inr d)"

definition after_fetch :: "string \<Rightarrow> ('a ApiReply_scheme) http_result \<Rightarrow> error + 'a ApiReply_scheme" where
  "after_fetch fallback r =
     (case r of
        FetchRejected m \<Rightarrow> Inl (Error m)
      | BodyRejected status m \<Rightarrow> Inl (Error m)
      | Reply status data \<Rightarrow> check_reply fallback status data)"

text \<open>
  \<open>SUPABASE_URL\<close> is imported from the module \<open>./supabase\<close> and only prefixed to the
  path; it is the first parameter. The second is the stored API key preference, the third
  the network: what the request is answered with.
\<close>

definition enrich_request :: "string \<Rightarrow> string \<Rightarrow> string \<Rightarrow> string \<Rightarrow> string \<Rightarrow> EnrichBody request" where
  "enrich_request supabase_url apiKey firstName lastName companyWebsite =
     \<lparr>req_url = supabase_url @ ''/functions/v1/spend-and-enrich-person'',
      req_api_key = apiKey,
      req_body = \<lparr>eb_first_name = firstName, eb_last_name = lastName,
                   eb_company_website = companyWebsite\<rparr>\<rparr>"

definition enrichPerson ::
  "string \<Rightarrow> string option \<Rightarrow> (EnrichBody request \<Rightarrow> EnrichPersonResponse http_result)
     \<Rightarrow> string \<Rightarrow> string \<Rightarrow> string \<Rightarrow> error + EnrichPersonResponse" where
  "enrichPerson supabase_url pref fetch firstName lastName companyWebsite =
     (case getApiKey pref of
        Inl e \<Rightarrow> Inl e
      | Inr apiKey \<Rightarrow>
          after_fetch ''Failed to enrich person''
            (fetch (enrich_request supabase_url apiKey firstName lastName companyWebsite)))"

text \<open>The page argument is optional and defaults to the first page.\<close>

definition search_request :: "string \<Rightarrow> string \<Rightarrow> string \<Rightarrow> int option \<Rightarrow> SearchBody request" where
  "search_request supabase_url apiKey domain pageArg =
     \<lparr>req_url = supabase_url @ ''/functions/v1/spend-and-search-person'',
      req_api_key = apiKey,
      req_body = \<lparr>sb_page = (case pageArg of None \<Rightarrow> 1 | Some p \<Rightarrow> p),
                   sb_include = [domain]\<rparr>\<rparr>"

definition searchPerson ::
  "string \<Rightarrow> string option \<Rightarrow> (SearchBody request \<Rightarrow> SearchPersonResponse http_result)
     \<Rightarrow> string \<Rightarrow> int option \<Rightarrow> error + SearchPersonResponse" where
  "searchPerson supabase_url pref fetch domain pageArg =
     (case getApiKey pref of
        Inl e \<Rightarrow> Inl e
      | Inr apiKey \<Rightarrow>
          after_fetch ''Failed to search people''
            (fetch (search_request supabase_url apiKey domain pageArg)))"

section \<open>The enrichment mapper\<close>

record DataMobile =
  dm_status :: string
  dm_mobile_international :: "string option"
  dm_mobile_country :: "string option"

record DataEmail =
  de_status :: string
  de_email :: string
  de_email_mx_provider :: "string option"

record PersonData =
  pd_first_name :: string
  pd_last_name :: string
  pd_full_name :: string
  pd_headline :: "string option"
  pd_linkedin_url :: "string option"
  pd_job_history :: "JobHistory list"
  pd_mobile :: "DataMobile option"
  pd_email :: DataEmail
  pd_location :: "PersonLocation option"
  pd_current_job_title :: "string option"

record CompanyData =
  cd_name :: string
  cd_website :: string
  cd_domain :: string
  cd_type :: "string option"
  cd_industry :: string
  cd_description_ai :: "string option"
  cd_employee_range :: string
  cd_founded :: int
  cd_linkedin_url :: "string option"
  cd_twitter_url :: "string option"
  cd_logo_url :: "string option"
  cd_location :: "CompanyLocation option"
  cd_revenue_range_printed :: "string option"
  cd_funding :: "Funding option"
  cd_employee_count :: "int option"
  cd_keywords :: "string list option"

record EnrichedData =
  ed_person :: PersonData
  ed_company :: CompanyData

text \<open>
  \<open>response.company?.f\<close>: the field of the company object, \<open>undefined\<close> when there is
  no company object.
\<close>

definition company_field :: "EnrichPersonResponse \<Rightarrow> (ResponseCompany \<Rightarrow> 'a option) \<Rightarrow> 'a option" where
  "company_field response f = (case company response of None \<Rightarrow> None | Some c \<Rightarrow> f c)"

text \<open>The object literal both mappers return once the email address is known to be there.\<close>

definition enriched_record :: "EnrichPersonResponse \<Rightarrow> ResponsePerson \<Rightarrow> ResponseEmail \<Rightarrow> string \<Rightarrow> string \<Rightarrow> EnrichedData" where
  "enriched_record response p em addr domain =
     \<lparr>ed_person =
        \<lparr>pd_first_name = rp_first_name p,
         pd_last_name = rp_last_name p,
         pd_full_name = rp_full_name p,
         pd_headline = or_null (rp_headline p),
         pd_linkedin_url = or_null (rp_linkedin_url p),
         pd_job_history = (case rp_job_history p of None \<Rightarrow> [] | Some js \<Rightarrow> js),
         pd_mobile =
           map_option (\<lambda>m. \<lparr>dm_status = rm_status m,
                              dm_mobile_international = or_null (rm_mobile_international m),
                              dm_mobile_country = rm_mobile_country m\<rparr>) (rp_mobile p),
         pd_email = \<lparr>de_status = re_status em, de_email = addr,
                      de_email_mx_provider = re_email_mx_provider em\<rparr>,
         pd_location =
           map_option (\<lambda>l. \<lparr>pl_country = pl_country l, pl_city = pl_city l,
                              pl_state = pl_state l, pl_country_code = pl_country_code l\<rparr>)
             (rp_location p),
         pd_current_job_title = or_null (rp_current_job_title p)\<rparr>,
      ed_company =
        \<lparr>cd_name = or_string (company_field response rc_name) domain,
         cd_website = or_string (company_field response rc_website) (''https://'' @ domain),
         cd_domain = or_string (company_field response rc_domain) domain,
         cd_type = or_null (company_field response rc_type),
         cd_industry = or_string (company_field response rc_industry) [],
         cd_description_ai = or_null (company_field response rc_description_ai),
         cd_employee_range = or_string (company_field response rc_employee_range) [],
         cd_founded = or_zero (company_field response rc_founded),
         cd_linkedin_url = or_null (company_field response rc_linkedin_url),
         cd_twitter_url = or_null (company_field response rc_twitter_url),
         cd_logo_url = or_null (company_field response rc_logo_url),
         cd_location =
           map_option (\<lambda>l. \<lparr>cl_country = cl_country l, cl_city = cl_city l,
                              cl_raw_address = cl_raw_address l\<rparr>)
             (company_field response rc_location),
         cd_revenue_range_printed = or_null (company_field response rc_revenue_range_printed),
         cd_funding =
           map_option (\<lambda>f. \<lparr>fu_total_funding_printed = fu_total_funding_printed f,
                              fu_latest_funding_stage = fu_latest_funding_stage f,
                              fu_latest_funding_date = fu_latest_funding_date f,
                              fu_funding_events = fu_funding_events f\<rparr>)
             (company_field response rc_funding),
         cd_employee_count = company_field response rc_employee_count,
         cd_keywords = company_field response rc_keywords\<rparr>\<rparr>"

text \<open>
  \<open>response.person?.email?.email\<close>: the address, \<open>undefined\<close> when the person, the
  email object or the address is missing.
\<close>

definition response_email_address :: "EnrichPersonResponse \<Rightarrow> string option" where
  "response_email_address response =
     (case person response of
        None \<Rightarrow> None
      | Some p \<Rightarrow> (case rp_email p of None \<Rightarrow> None | Some em \<Rightarrow> re_email em))"

text \<open>company-employees.tsx\<close>

definition mapEnrichResponseToData :: "EnrichPersonResponse \<Rightarrow> string \<Rightarrow> EnrichedData option" where
  "mapEnrichResponseToData response domain =
     (case person response of
        None \<Rightarrow> None
      | Some p \<Rightarrow>
          (case rp_email p of
             None \<Rightarrow> None
           | Some em \<Rightarrow>
               (case re_email em of
                  None \<Rightarrow> None
                | Some addr \<Rightarrow>
                    if addr = [] then None
                    else Some (enriched_record response p em addr domain))))"

text \<open>email-finder.tsx: the same mapper under its own name.\<close>

definition mapResponseToEnrichedData :: "EnrichPersonResponse \<Rightarrow> string \<Rightarrow> EnrichedData option" where
  "mapResponseToEnrichedData response domain =
     (case person response of
        None \<Rightarrow> None
      | Some p \<Rightarrow>
          (case rp_email p of
             None \<Rightarrow> None
           | Some em \<Rightarrow>
               (case re_email em of
                  None \<Rightarrow> None
                | Some addr \<Rightarrow>
                    if addr = [] then None
                    else Some (enriched_record response p em addr domain))))"

section \<open>history-storage.ts: the two bounded logs\<close>

datatype lookup_status = success | failure

record CachedEmployee =
  ce_id :: string
  ce_firstName :: string
  ce_lastName :: string
  ce_fullName :: string
  ce_jobTitle :: string
  ce_departments :: "string list"
  ce_linkedinUrl :: "string option"
  ce_location :: "string option"
  ce_seniority :: "string option"

text \<open>
  The argument of the two add operations is the entry without \<open>id\<close>, \<open>createdAt\<close> and
  \<open>type\<close>; the stored entry extends it with the three. An entry written before the
  \<open>type\<close> field existed has none.
\<close>

record SearchHistoryInput =
  she_firstName :: string
  she_lastName :: string
  she_domain :: string
  she_status :: lookup_status
  she_email :: "string option"
  she_error :: "string option"
  she_enrichedData :: "EnrichedData option"

record SearchHistoryEntry = SearchHistoryInput +
  she_type :: "string option"
  she_id :: string
  she_createdAt :: string

record CompanySearchHistoryInput =
  che_companyName :: string
  che_domain :: string
  che_confidenceScore :: int
  che_logoUrl :: "string option"
  che_employees :: "CachedEmployee list option"
  che_totalPages :: "int option"
  che_currentPage :: "int option"

record CompanySearchHistoryEntry = CompanySearchHistoryInput +
  che_type :: "string option"
  che_id :: string
  che_createdAt :: string

datatype HistoryEntry = EmailEntry SearchHistoryEntry | CompanyEntry CompanySearchHistoryEntry

fun createdAt :: "HistoryEntry \<Rightarrow> string" where
  "createdAt (EmailEntry e) = she_createdAt e"
| "createdAt (CompanyEntry c) = che_createdAt c"

fun entry_type :: "HistoryEntry \<Rightarrow> string option" where
  "entry_type (EmailEntry e) = she_type e"
| "entry_type (CompanyEntry c) = che_type c"

definition MAX_ENTRIES :: nat where
  "MAX_ENTRIES = 100"

text \<open>
  What the key-value store holds under one key: nothing (or the empty text), a text that
  \<open>JSON.parse\<close> rejects, or a text that parses, which the load operations take to be
  the serialised list of entries.
\<close>

datatype 'a stored = NoItem | Unparsable | Item "'a list"

record LocalStorage =
  search_history :: "SearchHistoryEntry stored"
  company_search_history :: "CompanySearchHistoryEntry stored"

text \<open>
  The clock and the random source read while an entry is created: \<open>Date.now()\<close>,
  \<open>Math.random().toString(36)\<close> and \<open>new Date().toISOString()\<close>.
\<close>

record clock =
  date_now :: int
  random_base36 :: string
  iso_now :: string

definition slice :: "nat \<Rightarrow> nat \<Rightarrow> 'a list \<Rightarrow> 'a list" where
  "slice i j xs = take (j - i) (drop i xs)"

definition generateId :: "clock \<Rightarrow> string" where
  "generateId c = number_to_string (date_now c) @ ''-'' @ slice 2 9 (random_base36 c)"

fun parsed :: "'a stored \<Rightarrow> 'a list" where
  "parsed NoItem = []"
| "parsed Unparsable = []"
| "parsed (Item es) = es"

definition loadSearchHistory :: "LocalStorage \<Rightarrow> SearchHistoryEntry list" where
  "loadSearchHistory st = parsed (search_history st)"

definition saveSearchHistory :: "SearchHistoryEntry list \<Rightarrow> LocalStorage \<Rightarrow> LocalStorage" where
  "saveSearchHistory entries st = st\<lparr>search_history := Item entries\<rparr>"

definition addSearchHistoryEntry ::
  "clock \<Rightarrow> SearchHistoryInput \<Rightarrow> LocalStorage \<Rightarrow> SearchHistoryEntry \<times> LocalStorage" where
  "addSearchHistoryEntry c entry st =
     (let entries = loadSearchHistory st;
          newEntry = SearchHistoryInput.extend entry
                       \<lparr>she_type = Some ''email'', she_id = generateId c, she_createdAt = iso_now c\<rparr>;
          updated = slice 0 MAX_ENTRIES (newEntry # entries)
      in (newEntry, saveSearchHistory updated st))"

definition removeSearchHistoryEntry :: "string \<Rightarrow> LocalStorage \<Rightarrow> LocalStorage" where
  "removeSearchHistoryEntry i st =
     saveSearchHistory (filter (\<lambda>e. she_id e \<noteq> i) (loadSearchHistory st)) st"

definition clearSearchHistory :: "LocalStorage \<Rightarrow> LocalStorage" where
  "clearSearchHistory st = st\<lparr>search_history := NoItem\<rparr>"

definition loadCompanySearchHistory :: "LocalStorage \<Rightarrow> CompanySearchHistoryEntry list" where
  "loadCompanySearchHistory st = parsed (company_search_history st)"

definition saveCompanySearchHistory :: "CompanySearchHistoryEntry list \<Rightarrow> LocalStorage \<Rightarrow> LocalStorage" where
  "saveCompanySearchHistory entries st = st\<lparr>company_search_history := Item entries\<rparr>"

definition addCompanySearchHistoryEntry ::
  "clock \<Rightarrow> CompanySearchHistoryInput \<Rightarrow> LocalStorage \<Rightarrow> CompanySearchHistoryEntry \<times> LocalStorage" where
  "addCompanySearchHistoryEntry c entry st =
     (let entries = loadCompanySearchHistory st;
          newEntry = CompanySearchHistoryInput.extend entry
                       \<lparr>che_type = Some ''company'', che_id = generateId c, che_createdAt = iso_now c\<rparr>;
          updated = slice 0 MAX_ENTRIES (newEntry # entries)
      in (newEntry, saveCompanySearchHistory updated st))"

definition removeCompanySearchHistoryEntry :: "string \<Rightarrow> LocalStorage \<Rightarrow> LocalStorage" where
  "removeCompanySearchHistoryEntry i st =
     saveCompanySearchHistory (filter (\<lambda>e. che_id e \<noteq> i) (loadCompanySearchHistory st)) st"

definition clearCompanySearchHistory :: "LocalStorage \<Rightarrow> LocalStorage" where
  "clearCompanySearchHistory st = st\<lparr>company_search_history := NoItem\<rparr>"

text \<open>
  \<open>new Date(s).getTime()\<close> is the parameter \<open>getTime\<close>: the milliseconds of a date
  text, \<open>None\<close> where JavaScript gives \<open>NaN\<close>. A difference with \<open>NaN\<close> is \<open>NaN\<close>, which
  the sort reads as zero.
\<close>

definition newest_first :: "(string \<Rightarrow> int option) \<Rightarrow> HistoryEntry \<Rightarrow> HistoryEntry \<Rightarrow> int" where
  "newest_first getTime a b =
     (case getTime (createdAt b) of
        None \<Rightarrow> 0
      | Some tb \<Rightarrow> (case getTime (createdAt a) of None \<Rightarrow> 0 | Some ta \<Rightarrow> tb - ta))"

definition loadAllHistory :: "(string \<Rightarrow> int option) \<Rightarrow> LocalStorage \<Rightarrow> HistoryEntry list" where
  "loadAllHistory getTime st =
     (let emailEntries = loadSearchHistory st;
          companyEntries = loadCompanySearchHistory st;
          typedEmailEntries = map (\<lambda>e. e\<lparr>she_type := Some ''email''\<rparr>) emailEntries;
          combined = map EmailEntry typedEmailEntries @ map CompanyEntry companyEntries
      in sort_by (newest_first getTime) combined)"

section \<open>company-employees.tsx: the employee aggregation\<close>

record Employee =
  emp_id :: string
  emp_firstName :: string
  emp_lastName :: string
  emp_fullName :: string
  emp_jobTitle :: string
  emp_departments :: "string list"
  emp_linkedinUrl :: "string option"
  emp_location :: "string option"
  emp_seniority :: "string option"

record DepartmentGroup =
  dg_name :: string
  dg_employees :: "Employee list"

text \<open>One element of \<open>response.results\<close>, mapped.\<close>

definition employee_of :: "SearchPersonResult \<Rightarrow> Employee" where
  "employee_of p =
     (let currentJob = (case job_history p of None \<Rightarrow> None | Some js \<Rightarrow> find sj_current js);
          departments = (case currentJob of
                           None \<Rightarrow> []
                         | Some j \<Rightarrow> (case sj_departments j of None \<Rightarrow> [] | Some ds \<Rightarrow> ds))
      in \<lparr>emp_id = person_id p,
          emp_firstName = first_name p,
          emp_lastName = last_name p,
          emp_fullName = full_name p,
          emp_jobTitle = or_string (current_job_title p) (or_string (map_option sj_title currentJob) []),
          emp_departments = (if length departments > 0 then departments else [''Other'']),
          emp_linkedinUrl = linkedin_url p,
          emp_location = map_option (\<lambda>l. sl_city l @ '', '' @ sl_country l) (location p),
          emp_seniority = (case currentJob of None \<Rightarrow> None | Some j \<Rightarrow> sj_seniority j)\<rparr>)"

definition mapSearchResponseToEmployees :: "SearchPersonResponse \<Rightarrow> Employee list" where
  "mapSearchResponseToEmployees response =
     (case results response of
        None \<Rightarrow> []
      | Some rs \<Rightarrow> if length rs = 0 then [] else map employee_of rs)"

text \<open>
  The \<open>Map\<close> from department to employees is an association list in insertion order, which
  is the order its keys are listed in. Setting a key that is there keeps its place.
\<close>

definition add_to_department :: "Employee \<Rightarrow> (string \<times> Employee list) list \<Rightarrow> string \<Rightarrow> (string \<times> Employee list) list" where
  "add_to_department employee departmentMap dept =
     (let existing = (case map_of departmentMap dept of None \<Rightarrow> [] | Some es \<Rightarrow> es)
      in AList.update dept (existing @ [employee]) departmentMap)"

definition build_department_map :: "Employee list \<Rightarrow> (string \<times> Employee list) list" where
  "build_department_map employees =
     foldl (\<lambda>m employee. foldl (add_to_department employee) m (emp_departments employee)) [] employees"

text \<open>The comparator of the department names; \<open>localeCompare\<close> is its parameter.\<close>

definition department_order :: "(string \<Rightarrow> string \<Rightarrow> int) \<Rightarrow> string \<Rightarrow> string \<Rightarrow> int" where
  "department_order localeCompare a b =
     (if a = ''Other'' then 1 else if b = ''Other'' then - 1 else localeCompare a b)"

definition groupByDepartment :: "(string \<Rightarrow> string \<Rightarrow> int) \<Rightarrow> Employee list \<Rightarrow> DepartmentGroup list" where
  "groupByDepartment localeCompare employees =
     (let departmentMap = build_department_map employees;
          sortedDepts = sort_by (department_order localeCompare) (map fst departmentMap)
      in map (\<lambda>name. \<lparr>dg_name = name,
                        dg_employees = (case map_of departmentMap name of None \<Rightarrow> [] | Some es \<Rightarrow> es)\<rparr>)
           sortedDepts)"

subsection \<open>The employee list view\<close>

datatype toast_style = Animated | Success | Failure

record Toast =
  t_style :: toast_style
  t_title :: string
  t_message :: string


text \<open>
  The state of the view, with the history store it writes to and the toasts it has shown,
  oldest first.
\<close>

record EmployeeListView =
  employees :: "Employee list"
  isLoading :: bool
  hasSearched :: bool
  currentPage :: int
  totalPages :: int
  credits :: "int option"
  storage :: LocalStorage
  toasts :: "Toast list"

definition showToast :: "toast_style \<Rightarrow> string \<Rightarrow> string \<Rightarrow> EmployeeListView \<Rightarrow> EmployeeListView" where
  "showToast style title msg v = v\<lparr>toasts := toasts v @ [\<lparr>t_style = style, t_title = title, t_message = msg\<rparr>]\<rparr>"

text \<open>\<open>if (typeof response.balance === "number") setCredits(response.balance)\<close>\<close>

definition take_balance :: "'a ApiReply_scheme \<Rightarrow> EmployeeListView \<Rightarrow> EmployeeListView" where
  "take_balance response v = (case balance response of None \<Rightarrow> v | Some b \<Rightarrow> v\<lparr>credits := Some b\<rparr>)"

text \<open>
  The handler of a failed lookup. The balance is fetched again in the background; the
  parameter \<open>refetched\<close> is what that gives, \<open>None\<close> when it fails, which is ignored.
\<close>

definition lookup_failed :: "int option \<Rightarrow> error \<Rightarrow> EmployeeListView \<Rightarrow> EmployeeListView" where
  "lookup_failed refetched err v =
     (let v1 = showToast Failure ''Failed'' (error_message err) v
      in case refetched of None \<Rightarrow> v1 | Some b \<Rightarrow> v1\<lparr>credits := Some b\<rparr>)"




text \<open>The part of \<open>loadMoreEmployees\<close> that runs once \<open>searchPerson\<close> has returned a page.\<close>

definition load_more_succeeded :: "SearchPersonResponse \<Rightarrow> EmployeeListView \<Rightarrow> EmployeeListView" where
  "load_more_succeeded response v =
     (let v1 = take_balance response v;
          newMappedEmployees = mapSearchResponseToEmployees response;
          existingIds = set (map emp_id (employees v));
          newEmployees = filter (\<lambda>e. emp_id e \<notin> existingIds) newMappedEmployees;
          v2 = v1\<lparr>employees := employees v @ newEmployees,
                  currentPage := (case pagination response of
                                    None \<Rightarrow> currentPage v + 1
                                  | Some p \<Rightarrow> page p)\<rparr>
      in showToast Success ''Loaded''
           (number_to_string (int (length newEmployees)) @ '' more employees'') v2)"

definition loadMoreEmployees ::
  "string \<Rightarrow> string option \<Rightarrow> (SearchBody request \<Rightarrow> SearchPersonResponse http_result)
     \<Rightarrow> int option \<Rightarrow> string \<Rightarrow> EmployeeListView \<Rightarrow> EmployeeListView" where
  "loadMoreEmployees supabase_url pref fetch refetched initialDomain v =
     (if currentPage v \<ge> totalPages v then v
      else if isLoading v then v
      else
        let v1 = v\<lparr>isLoading := True\<rparr>;
            v2 = showToast Animated ''Loading more...''
                   (''Page '' @ number_to_string (currentPage v + 1)) v1;
            v3 = (case searchPerson supabase_url pref fetch initialDomain (Some (currentPage v + 1)) of
                    Inr response \<Rightarrow> load_more_succeeded response v2
                  | Inl err \<Rightarrow> lookup_failed refetched err v2)
        in v3\<lparr>isLoading := False\<rparr>)"


section \<open>Sample data\<close>

definition sample_person :: "ResponseEmail option \<Rightarrow> ResponsePerson" where
  "sample_person em =
     \<lparr>rp_first_name = ''Ada'', rp_last_name = ''Lovelace'', rp_full_name = ''Ada Lovelace'',
      rp_headline = Some ''Analyst'', rp_linkedin_url = None, rp_current_job_title = Some ''Analyst'',
      rp_job_history = None, rp_mobile = None, rp_email = em, rp_location = None\<rparr>"

definition sample_company :: ResponseCompany where
  "sample_company =
     \<lparr>rc_name = Some ''Acme'', rc_website = Some ''https://www.acme.com'', rc_domain = None,
      rc_type = None, rc_industry = Some ''Tools'', rc_description_ai = None,
      rc_employee_range = None, rc_employee_count = Some 12, rc_founded = Some 1949,
      rc_linkedin_url = None, rc_twitter_url = None, rc_logo_url = None, rc_location = None,
      rc_revenue_range_printed = None, rc_funding = None, rc_keywords = None\<rparr>"

definition sample_email :: "string option \<Rightarrow> ResponseEmail" where
  "sample_email addr = \<lparr>re_status = ''VERIFIED'', re_email = addr, re_email_mx_provider = None\<rparr>"

definition sample_response :: "ResponseEmail option \<Rightarrow> ResponseCompany option \<Rightarrow> EnrichPersonResponse" where
  "sample_response em co =
     \<lparr>error = False, error_code = None, message = None, balance = Some 7,
      person = Some (sample_person em), company = co\<rparr>"

definition sample_clock :: clock where
  "sample_clock = \<lparr>date_now = 1700000000000, random_base36 = ''0.4fzyo82mvyr'',
                    iso_now = ''2023-11-14T22:13:20.000Z''\<rparr>"

definition sample_input :: SearchHistoryInput where
  "sample_input =
     \<lparr>she_firstName = ''Ada'', she_lastName = ''Lovelace'', she_domain = ''acme.com'',
      she_status = failure, she_email = None, she_error = Some ''No email found for this person'',
      she_enrichedData = None\<rparr>"

definition sample_company_input :: CompanySearchHistoryInput where
  "sample_company_input =
     \<lparr>che_companyName = ''Acme'', che_domain = ''acme.com'', che_confidenceScore = 100,
      che_logoUrl = None, che_employees = None, che_totalPages = Some 1, che_currentPage = Some 1\<rparr>"

text \<open>An older entry of each log, numbered by its place in the log, and created at the given text.\<close>

definition old_entry :: "string option \<Rightarrow> string \<Rightarrow> nat \<Rightarrow> SearchHistoryEntry" where
  "old_entry ty at i =
     SearchHistoryInput.extend sample_input
       \<lparr>she_type = ty, she_id = show_nat i, she_createdAt = at\<rparr>"

definition old_company_entry :: "string \<Rightarrow> nat \<Rightarrow> CompanySearchHistoryEntry" where
  "old_company_entry at i =
     CompanySearchHistoryInput.extend sample_company_input
       \<lparr>che_type = Some ''company'', che_id = show_nat i, che_createdAt = at\<rparr>"

definition full_storage :: LocalStorage where
  "full_storage =
     \<lparr>search_history = Item (map (old_entry (Some ''email'') ''2023-01-01T00:00:00.000Z'') [0..<100]),
      company_search_history = Item (map (old_company_entry ''2023-01-01T00:00:00.000Z'') [0..<100])\<rparr>"

text \<open>A legacy email entry created 10 ms and a company entry created 20 ms after the epoch.\<close>

definition two_entry_storage :: LocalStorage where
  "two_entry_storage =
     \<lparr>search_history = Item [old_entry None ''1970-01-01T00:00:00.010Z'' 0],
      company_search_history = Item [old_company_entry ''1970-01-01T00:00:00.020Z'' 1]\<rparr>"

definition sample_getTime :: "string \<Rightarrow> int option" where
  "sample_getTime s =
     (if s = ''1970-01-01T00:00:00.010Z'' then Some 10
      else if s = ''1970-01-01T00:00:00.020Z'' then Some 20
      else None)"

definition insufficient_reply :: "int \<Rightarrow> 'a \<Rightarrow> 'a ApiReply_scheme" where
  "insufficient_reply b rest =
     \<lparr>error = True, error_code = Some ''INSUFFICIENT_CREDITS'',
      message = Some ''Insufficient credits'', balance = Some b, \<dots> = rest\<rparr>"

text \<open>
  The order the merged history is in: both creation times are dates and the first is not
  the older one.
\<close>

definition not_older :: "(string \<Rightarrow> int option) \<Rightarrow> HistoryEntry \<Rightarrow> HistoryEntry \<Rightarrow> bool" where
  "not_older getTime a b =
     (case getTime (createdAt a) of
        None \<Rightarrow> False
      | Some ta \<Rightarrow> (case getTime (createdAt b) of None \<Rightarrow> False | Some tb \<Rightarrow> tb \<le> ta))"

text \<open>
  The order the department names are expected in: \<open>Other\<close> after every name, the other
  names ascending by \<open>localeCompare\<close>.
\<close>

definition other_last :: "(string \<Rightarrow> string \<Rightarrow> int) \<Rightarrow> string \<Rightarrow> string \<Rightarrow> bool" where
  "other_last localeCompare a b =
     (if b = ''Other'' then True else if a = ''Other'' then False else localeCompare a b \<le> 0)"

text \<open>The employees filed under a department in the map, none when the key is missing.\<close>

definition filed_under :: "(string \<times> Employee list) list \<Rightarrow> string \<Rightarrow> Employee list" where
  "filed_under departmentMap dept = (case map_of departmentMap dept of None \<Rightarrow> [] | Some es \<Rightarrow> es)"

text \<open>
  A comparator for the examples, in place of \<open>localeCompare\<close>: the order of the code
  units, which is the order of names spelled in one case of the basic Latin letters.
\<close>

definition code_unit_compare :: "string \<Rightarrow> string \<Rightarrow> int" where
  "code_unit_compare a b =
     (if (map of_char a :: nat list) < map of_char b then - 1
      else if (map of_char b :: nat list) < map of_char a then 1
      else 0)"

definition sample_employee :: "string \<Rightarrow> string list \<Rightarrow> Employee" where
  "sample_employee i ds =
     \<lparr>emp_id = i, emp_firstName = ''Ada'', emp_lastName = ''Lovelace'', emp_fullName = ''Ada Lovelace'',
      emp_jobTitle = ''Analyst'', emp_departments = ds, emp_linkedinUrl = None,
      emp_location = None, emp_seniority = None\<rparr>"

definition sample_result :: "string \<Rightarrow> SearchPersonResult" where
  "sample_result i =
     \<lparr>person_id = i, first_name = ''Ada'', last_name = ''Lovelace'', full_name = ''Ada Lovelace'',
      headline = None, linkedin_url = None, current_job_title = Some ''Analyst'',
      job_history = None, location = None\<rparr>"

definition sample_page :: "string list \<Rightarrow> Pagination option \<Rightarrow> SearchPersonResponse" where
  "sample_page ids pg =
     \<lparr>error = False, error_code = None, message = None, balance = Some 4,
      results = Some (map sample_result ids), pagination = pg\<rparr>"

definition sample_view :: "string list \<Rightarrow> int \<Rightarrow> int \<Rightarrow> EmployeeListView" where
  "sample_view ids cp tp =
     \<lparr>employees = map (\<lambda>i. sample_employee i [''Other'']) ids, isLoading = False,
      hasSearched = True, currentPage = cp, totalPages = tp, credits = Some 5,
      storage = two_entry_storage, toasts = []\<rparr>"

section \<open>Auxiliary facts\<close>

lemma mset_insert_by: "mset (insert_by cmp x ys) = add_mset x (mset ys)"
  by (induction ys) simp_all

lemma set_insert_by: "set (insert_by cmp x ys) = insert x (set ys)"
  by (induction ys) auto

lemma mset_foldl_insert_by:
  "mset (foldl (\<lambda>acc x. insert_by cmp x acc) acc xs) = mset acc + mset xs"
  by (induction xs arbitrary: acc) (simp_all add: mset_insert_by)

lemma mset_sort_by: "mset (sort_by cmp xs) = mset xs"
  by (simp add: sort_by_def mset_foldl_insert_by)

lemma set_sort_by: "set (sort_by cmp xs) = set xs"
  by (rule mset_eq_setD) (rule mset_sort_by)

lemma distinct_sort_by: "distinct (sort_by cmp xs) = distinct xs"
  by (rule mset_eq_imp_distinct_iff) (rule mset_sort_by)

text \<open>
  Inserting keeps a list ordered by \<open>R\<close> when the comparator agrees with \<open>R\<close> on the
  elements involved and \<open>R\<close> is transitive on them.
\<close>

lemma sorted_wrt_insert_by:
  assumes "sorted_wrt R ys"
    and "\<And>y. y \<in> set ys \<Longrightarrow> cmp x y < 0 \<Longrightarrow> R x y"
    and "\<And>y. y \<in> set ys \<Longrightarrow> \<not> cmp x y < 0 \<Longrightarrow> R y x"
    and "\<And>y z. y \<in> set ys \<Longrightarrow> z \<in> set ys \<Longrightarrow> R x y \<Longrightarrow> R y z \<Longrightarrow> R x z"
  shows "sorted_wrt R (insert_by cmp x ys)"
  using assms
proof (induction ys)
  case Nil
  show ?case by simp
next
  case (Cons y ys)
  show ?case
  proof (cases "cmp x y < 0")
    case True
    then have xy: "R x y" using Cons.prems(2) by simp
    have "\<forall>z\<in>set ys. R x z"
    proof
      fix z assume z: "z \<in> set ys"
      with Cons.prems(1) have "R y z" by simp
      with xy z show "R x z" using Cons.prems(4) [of y z] by simp
    qed
    with True xy Cons.prems(1) show ?thesis by simp
  next
    case False
    then have yx: "R y x" using Cons.prems(3) by simp
    have "sorted_wrt R (insert_by cmp x ys)"
    proof (rule Cons.IH)
      show "sorted_wrt R ys" using Cons.prems(1) by simp
    next
      fix z assume "z \<in> set ys" "cmp x z < 0"
      then show "R x z" using Cons.prems(2) [of z] by simp
    next
      fix z assume "z \<in> set ys" "\<not> cmp x z < 0"
      then show "R z x" using Cons.prems(3) [of z] by simp
    next
      fix u z assume "u \<in> set ys" "z \<in> set ys" "R x u" "R u z"
      then show "R x z" using Cons.prems(4) [of u z] by simp
    qed
    with False yx Cons.prems(1) show ?thesis by (simp add: set_insert_by)
  qed
qed

lemma sorted_wrt_foldl_insert_by:
  assumes "sorted_wrt R acc" and "set acc \<subseteq> S" and "set xs \<subseteq> S"
    and "\<And>x y. x \<in> S \<Longrightarrow> y \<in> S \<Longrightarrow> cmp x y < 0 \<Longrightarrow> R x y"
    and "\<And>x y. x \<in> S \<Longrightarrow> y \<in> S \<Longrightarrow> \<not> cmp x y < 0 \<Longrightarrow> R y x"
    and "\<And>x y z. x \<in> S \<Longrightarrow> y \<in> S \<Longrightarrow> z \<in> S \<Longrightarrow> R x y \<Longrightarrow> R y z \<Longrightarrow> R x z"
  shows "sorted_wrt R (foldl (\<lambda>acc x. insert_by cmp x acc) acc xs)"
  using assms(1,2,3)
proof (induction xs arbitrary: acc)
  case Nil
  then show ?case by simp
next
  case (Cons x xs)
  have x: "x \<in> S" and acc: "set acc \<subseteq> S"
    using Cons.prems by simp_all
  have "sorted_wrt R (insert_by cmp x acc)"
  proof (rule sorted_wrt_insert_by)
    show "sorted_wrt R acc" by (rule Cons.prems(1))
  next
    fix y assume "y \<in> set acc" "cmp x y < 0"
    with x acc show "R x y" using assms(4) [of x y] by blast
  next
    fix y assume "y \<in> set acc" "\<not> cmp x y < 0"
    with x acc show "R y x" using assms(5) [of x y] by blast
  next
    fix y z assume "y \<in> set acc" "z \<in> set acc" "R x y" "R y z"
    with x acc show "R x z" using assms(6) [of x y z] by blast
  qed
  moreover have "set (insert_by cmp x acc) \<subseteq> S"
    using Cons.prems by (simp add: set_insert_by)
  ultimately show ?case using Cons.prems by (simp add: Cons.IH)
qed

lemma sorted_wrt_sort_by:
  assumes "set xs \<subseteq> S"
    and "\<And>x y. x \<in> S \<Longrightarrow> y \<in> S \<Longrightarrow> cmp x y < 0 \<Longrightarrow> R x y"
    and "\<And>x y. x \<in> S \<Longrightarrow> y \<in> S \<Longrightarrow> \<not> cmp x y < 0 \<Longrightarrow> R y x"
    and "\<And>x y z. x \<in> S \<Longrightarrow> y \<in> S \<Longrightarrow> z \<in> S \<Longrightarrow> R x y \<Longrightarrow> R y z \<Longrightarrow> R x z"
  shows "sorted_wrt R (sort_by cmp xs)"
  unfolding sort_by_def
proof (rule sorted_wrt_foldl_insert_by [where S = S])
  show "sorted_wrt R []" by simp
  show "set [] \<subseteq> S" by simp
  show "set xs \<subseteq> S" by (rule assms(1))
qed (fact assms(2), fact assms(3), fact assms(4))

lemma slice_from_start: "slice 0 n xs = take n xs"
  by (simp add: slice_def)

lemma take_full_log: "length xs = 100 \<Longrightarrow> take 99 xs = butlast xs"
  by (simp add: butlast_conv_take)

lemma butlast_upt_100: "butlast [0..<100] = [0..<99]"
  by (simp add: butlast_conv_take)

lemma generateId_sample_clock: "generateId sample_clock = ''1700000000000-4fzyo82''"
  by (simp add: generateId_def sample_clock_def number_to_string_def decimal_def slice_def
      show_nat.simps digit_char_def)

lemma number_to_string_two_to_60:
  "number_to_string 1152921504606846976 = ''1152921504606847000''"
  by (simp add: number_to_string_def print_double_def to_double_def closest_digits_def
      shortest_digits.simps bit_length.simps show_nat.simps digit_char_def Let_def)

lemma getApiKey_sample: "getApiKey (Some '' k1 '') = Inr ''k1''"
  by (simp add: getApiKey_def trim_def is_white_space_def)

section \<open>The history logs\<close>

text \<open>
  C4. Adding to either log gives the new entry a generated id and the creation time,
  puts it first and keeps the 100 most recent entries: the log is the new entry followed
  by the old log cut to 99, so its length never exceeds 100, a log of fewer than 100
  entries loses nothing, and a log of 100 entries loses exactly its last, oldest entry.
  The other log is untouched and the finished entry, which carries the fields given, is
  returned.
\<close>

theorem add_entry_bounded:
  assumes "addSearchHistoryEntry c entry st = (e, st1)"
    and "addCompanySearchHistoryEntry c centry st = (ce, st2)"
  shows "she_id e = generateId c \<and> she_createdAt e = iso_now c \<and> she_type e = Some ''email'' \<and>
         SearchHistoryInput.truncate e = entry \<and>
         loadSearchHistory st1 = take 100 (e # loadSearchHistory st) \<and>
         length (loadSearchHistory st1) \<le> 100 \<and>
         (length (loadSearchHistory st) < 100 \<longrightarrow> loadSearchHistory st1 = e # loadSearchHistory st) \<and>
         (length (loadSearchHistory st) = 100 \<longrightarrow>
            loadSearchHistory st1 = e # butlast (loadSearchHistory st)) \<and>
         loadCompanySearchHistory st1 = loadCompanySearchHistory st \<and>
         che_id ce = generateId c \<and> che_createdAt ce = iso_now c \<and> che_type ce = Some ''company'' \<and>
         CompanySearchHistoryInput.truncate ce = centry \<and>
         loadCompanySearchHistory st2 = take 100 (ce # loadCompanySearchHistory st) \<and>
         length (loadCompanySearchHistory st2) \<le> 100 \<and>
         (length (loadCompanySearchHistory st) < 100 \<longrightarrow>
            loadCompanySearchHistory st2 = ce # loadCompanySearchHistory st) \<and>
         (length (loadCompanySearchHistory st) = 100 \<longrightarrow>
            loadCompanySearchHistory st2 = ce # butlast (loadCompanySearchHistory st)) \<and>
         loadSearchHistory st2 = loadSearchHistory st"
proof -
  have email: "she_id e = generateId c \<and> she_createdAt e = iso_now c \<and> she_type e = Some ''email'' \<and>
         SearchHistoryInput.truncate e = entry \<and>
         loadSearchHistory st1 = take 100 (e # loadSearchHistory st) \<and>
         length (loadSearchHistory st1) \<le> 100 \<and>
         (length (loadSearchHistory st) < 100 \<longrightarrow> loadSearchHistory st1 = e # loadSearchHistory st) \<and>
         (length (loadSearchHistory st) = 100 \<longrightarrow>
            loadSearchHistory st1 = e # butlast (loadSearchHistory st)) \<and>
         loadCompanySearchHistory st1 = loadCompanySearchHistory st"
    using assms(1)
    by (auto simp: addSearchHistoryEntry_def Let_def saveSearchHistory_def loadSearchHistory_def
        loadCompanySearchHistory_def MAX_ENTRIES_def slice_from_start take_full_log
        SearchHistoryInput.extend_def SearchHistoryInput.truncate_def)
  have comp: "che_id ce = generateId c \<and> che_createdAt ce = iso_now c \<and> che_type ce = Some ''company'' \<and>
         CompanySearchHistoryInput.truncate ce = centry \<and>
         loadCompanySearchHistory st2 = take 100 (ce # loadCompanySearchHistory st) \<and>
         length (loadCompanySearchHistory st2) \<le> 100 \<and>
         (length (loadCompanySearchHistory st) < 100 \<longrightarrow>
            loadCompanySearchHistory st2 = ce # loadCompanySearchHistory st) \<and>
         (length (loadCompanySearchHistory st) = 100 \<longrightarrow>
            loadCompanySearchHistory st2 = ce # butlast (loadCompanySearchHistory st)) \<and>
         loadSearchHistory st2 = loadSearchHistory st"
    using assms(2)
    by (auto simp: addCompanySearchHistoryEntry_def Let_def saveCompanySearchHistory_def
        loadSearchHistory_def loadCompanySearchHistory_def MAX_ENTRIES_def slice_from_start
        take_full_log CompanySearchHistoryInput.extend_def CompanySearchHistoryInput.truncate_def)
  from email comp show ?thesis by (simp add: take_full_log)
qed

text \<open>
  Adding a 101st entry to each full log: the new entry is first, the entries numbered
  0 to 98 follow, and the entry numbered 99, the oldest, is gone.
\<close>

theorem add_entry_bounded_witness:
  "she_id (fst (addSearchHistoryEntry sample_clock sample_input full_storage)) = ''1700000000000-4fzyo82'' \<and>
   she_createdAt (fst (addSearchHistoryEntry sample_clock sample_input full_storage)) = ''2023-11-14T22:13:20.000Z'' \<and>
   loadSearchHistory (snd (addSearchHistoryEntry sample_clock sample_input full_storage)) =
     fst (addSearchHistoryEntry sample_clock sample_input full_storage)
       # map (old_entry (Some ''email'') ''2023-01-01T00:00:00.000Z'') [0..<99] \<and>
   length (loadSearchHistory (snd (addSearchHistoryEntry sample_clock sample_input full_storage))) = 100 \<and>
   che_id (fst (addCompanySearchHistoryEntry sample_clock sample_company_input full_storage)) = ''1700000000000-4fzyo82'' \<and>
   loadCompanySearchHistory (snd (addCompanySearchHistoryEntry sample_clock sample_company_input full_storage)) =
     fst (addCompanySearchHistoryEntry sample_clock sample_company_input full_storage)
       # map (old_company_entry ''2023-01-01T00:00:00.000Z'') [0..<99] \<and>
   length (loadCompanySearchHistory (snd (addCompanySearchHistoryEntry sample_clock sample_company_input full_storage))) = 100"
proof -
  have l1: "length (loadSearchHistory full_storage) = 100"
    by (simp add: loadSearchHistory_def full_storage_def)
  have l2: "length (loadCompanySearchHistory full_storage) = 100"
    by (simp add: loadCompanySearchHistory_def full_storage_def)
  have b1: "butlast (loadSearchHistory full_storage) =
              map (old_entry (Some ''email'') ''2023-01-01T00:00:00.000Z'') [0..<99]"
    by (simp add: loadSearchHistory_def full_storage_def map_butlast [symmetric] butlast_upt_100)
  have b2: "butlast (loadCompanySearchHistory full_storage) =
              map (old_company_entry ''2023-01-01T00:00:00.000Z'') [0..<99]"
    by (simp add: loadCompanySearchHistory_def full_storage_def map_butlast [symmetric] butlast_upt_100)
  have t: "iso_now sample_clock = ''2023-11-14T22:13:20.000Z''"
    by (simp add: sample_clock_def)
  note add = add_entry_bounded
    [of sample_clock sample_input full_storage
        "fst (addSearchHistoryEntry sample_clock sample_input full_storage)"
        "snd (addSearchHistoryEntry sample_clock sample_input full_storage)"
        sample_company_input
        "fst (addCompanySearchHistoryEntry sample_clock sample_company_input full_storage)"
        "snd (addCompanySearchHistoryEntry sample_clock sample_company_input full_storage)",
      OF prod.collapse [symmetric] prod.collapse [symmetric]]
  from add l1 l2 show ?thesis
    by (simp add: generateId_sample_clock t take_full_log [OF l1] take_full_log [OF l2] b1 b2)
qed

text \<open>
  C8. When every stored creation time is a date, the merged history holds exactly the
  entries of both logs, each email entry tagged with the email type whatever it was
  stored with, and every entry comes before all entries created earlier.
\<close>

theorem load_all_history_merged_newest_first:
  assumes "\<forall>e \<in> set (loadSearchHistory st). getTime (she_createdAt e) \<noteq> None"
    and "\<forall>c \<in> set (loadCompanySearchHistory st). getTime (che_createdAt c) \<noteq> None"
  shows "mset (loadAllHistory getTime st) =
           mset (map (\<lambda>e. EmailEntry (e\<lparr>she_type := Some ''email''\<rparr>)) (loadSearchHistory st)) +
           mset (map CompanyEntry (loadCompanySearchHistory st)) \<and>
         (\<forall>e. EmailEntry e \<in> set (loadAllHistory getTime st) \<longrightarrow> she_type e = Some ''email'') \<and>
         sorted_wrt (not_older getTime) (loadAllHistory getTime st)"
proof -
  let ?combined = "map EmailEntry (map (\<lambda>e. e\<lparr>she_type := Some ''email''\<rparr>) (loadSearchHistory st))
                     @ map CompanyEntry (loadCompanySearchHistory st)"
  let ?S = "{h. getTime (createdAt h) \<noteq> None}"
  have all: "loadAllHistory getTime st = sort_by (newest_first getTime) ?combined"
    by (simp add: loadAllHistory_def Let_def)
  have m: "mset (loadAllHistory getTime st) = mset ?combined"
    by (simp only: all mset_sort_by)
  have sub: "set ?combined \<subseteq> ?S"
    using assms by auto
  have tagged: "\<forall>e. EmailEntry e \<in> set ?combined \<longrightarrow> she_type e = Some ''email''"
    by auto
  have s: "sorted_wrt (not_older getTime) (loadAllHistory getTime st)"
    unfolding all
  proof (rule sorted_wrt_sort_by [OF sub])
    fix x y assume "x \<in> ?S" "y \<in> ?S" "newest_first getTime x y < 0"
    then show "not_older getTime x y"
      by (clarsimp simp: not_older_def newest_first_def)
  next
    fix x y assume "x \<in> ?S" "y \<in> ?S" "\<not> newest_first getTime x y < 0"
    then show "not_older getTime y x"
      by (clarsimp simp: not_older_def newest_first_def)
  next
    fix x y z assume "x \<in> ?S" "y \<in> ?S" "z \<in> ?S" "not_older getTime x y" "not_older getTime y z"
    then show "not_older getTime x z"
      by (clarsimp simp: not_older_def)
  qed
  have seteq: "set (loadAllHistory getTime st) = set ?combined"
    by (simp only: all set_sort_by)
  have t: "\<forall>e. EmailEntry e \<in> set (loadAllHistory getTime st) \<longrightarrow> she_type e = Some ''email''"
    by (simp only: seteq) (rule tagged)
  have "mset ?combined =
           mset (map (\<lambda>e. EmailEntry (e\<lparr>she_type := Some ''email''\<rparr>)) (loadSearchHistory st)) +
           mset (map CompanyEntry (loadCompanySearchHistory st))"
    by (simp add: comp_def)
  with m have m': "mset (loadAllHistory getTime st) =
           mset (map (\<lambda>e. EmailEntry (e\<lparr>she_type := Some ''email''\<rparr>)) (loadSearchHistory st)) +
           mset (map CompanyEntry (loadCompanySearchHistory st))"
    by (rule trans)
  show ?thesis
    by (rule conjI [OF m' conjI [OF t s]])
qed

text \<open>
  One untyped email entry created at 10 and one company entry created at 20: the merged
  history is the company entry, then the email entry, now typed.
\<close>

theorem load_all_history_merged_newest_first_witness:
  "loadAllHistory sample_getTime two_entry_storage =
     [CompanyEntry (old_company_entry ''1970-01-01T00:00:00.020Z'' 1),
      EmailEntry ((old_entry None ''1970-01-01T00:00:00.010Z'' 0)\<lparr>she_type := Some ''email''\<rparr>)] \<and>
   sample_getTime (createdAt (CompanyEntry (old_company_entry ''1970-01-01T00:00:00.020Z'' 1))) = Some 20 \<and>
   sample_getTime (createdAt (EmailEntry (old_entry None ''1970-01-01T00:00:00.010Z'' 0))) = Some 10 \<and>
   sorted_wrt (not_older sample_getTime) (loadAllHistory sample_getTime two_entry_storage) \<and>
   mset (loadAllHistory sample_getTime two_entry_storage) =
     mset (map (\<lambda>e. EmailEntry (e\<lparr>she_type := Some ''email''\<rparr>)) (loadSearchHistory two_entry_storage)) +
     mset (map CompanyEntry (loadCompanySearchHistory two_entry_storage))"
proof -
  have h1: "\<forall>e \<in> set (loadSearchHistory two_entry_storage). sample_getTime (she_createdAt e) \<noteq> None"
    by (simp add: loadSearchHistory_def two_entry_storage_def old_entry_def
        SearchHistoryInput.extend_def sample_getTime_def)
  have h2: "\<forall>c \<in> set (loadCompanySearchHistory two_entry_storage). sample_getTime (che_createdAt c) \<noteq> None"
    by (simp add: loadCompanySearchHistory_def two_entry_storage_def old_company_entry_def
        CompanySearchHistoryInput.extend_def sample_getTime_def)
  have run: "loadAllHistory sample_getTime two_entry_storage =
     [CompanyEntry (old_company_entry ''1970-01-01T00:00:00.020Z'' 1),
      EmailEntry ((old_entry None ''1970-01-01T00:00:00.010Z'' 0)\<lparr>she_type := Some ''email''\<rparr>)]"
    by (simp add: loadAllHistory_def two_entry_storage_def loadSearchHistory_def
        loadCompanySearchHistory_def sort_by_def newest_first_def sample_getTime_def
        old_entry_def old_company_entry_def SearchHistoryInput.extend_def
        CompanySearchHistoryInput.extend_def)
  have times: "sample_getTime (createdAt (CompanyEntry (old_company_entry ''1970-01-01T00:00:00.020Z'' 1))) = Some 20 \<and>
     sample_getTime (createdAt (EmailEntry (old_entry None ''1970-01-01T00:00:00.010Z'' 0))) = Some 10"
    by (simp add: sample_getTime_def old_entry_def old_company_entry_def
        SearchHistoryInput.extend_def CompanySearchHistoryInput.extend_def)
  from load_all_history_merged_newest_first [OF h1 h2] run times show ?thesis
    by blast
qed

section \<open>The enrichment mapper\<close>

text \<open>
  C5. A response without \<open>person.email.email\<close>, because the person, the email object
  or the address is missing, is mapped to "no data" by both mappers, for every domain and
  whatever else the response holds.
\<close>

theorem no_email_gives_no_data:
  "response_email_address response = None \<Longrightarrow>
     mapEnrichResponseToData response domain = None \<and>
     mapResponseToEnrichedData response domain = None"
  by (auto simp: response_email_address_def mapEnrichResponseToData_def
      mapResponseToEnrichedData_def split: option.splits)

text \<open>A response with a person, a company and an email object that has no address.\<close>

theorem no_email_gives_no_data_witness:
  "response_email_address (sample_response (Some (sample_email None)) (Some sample_company)) = None \<and>
   mapEnrichResponseToData (sample_response (Some (sample_email None)) (Some sample_company)) ''acme.com'' = None \<and>
   mapResponseToEnrichedData (sample_response (Some (sample_email None)) (Some sample_company)) ''acme.com'' = None"
proof -
  have h: "response_email_address (sample_response (Some (sample_email None)) (Some sample_company)) = None"
    by (simp add: response_email_address_def sample_response_def sample_person_def sample_email_def)
  from no_email_gives_no_data [OF h, of "''acme.com''"] h show ?thesis by simp
qed

text \<open>
  C10. A response whose email object holds the empty string as address is mapped to
  "no data" by both mappers, the same result as for the response with the address
  removed and as for the response with the whole email object removed.
\<close>

theorem empty_email_is_no_email:
  "person response = Some p \<Longrightarrow> rp_email p = Some em \<Longrightarrow> re_email em = Some [] \<Longrightarrow>
     mapEnrichResponseToData response domain = None \<and>
     mapEnrichResponseToData response domain =
       mapEnrichResponseToData (response\<lparr>person := Some (p\<lparr>rp_email := Some (em\<lparr>re_email := None\<rparr>)\<rparr>)\<rparr>) domain \<and>
     mapEnrichResponseToData response domain =
       mapEnrichResponseToData (response\<lparr>person := Some (p\<lparr>rp_email := None\<rparr>)\<rparr>) domain \<and>
     mapResponseToEnrichedData response domain = None \<and>
     mapResponseToEnrichedData response domain =
       mapResponseToEnrichedData (response\<lparr>person := Some (p\<lparr>rp_email := Some (em\<lparr>re_email := None\<rparr>)\<rparr>)\<rparr>) domain \<and>
     mapResponseToEnrichedData response domain =
       mapResponseToEnrichedData (response\<lparr>person := Some (p\<lparr>rp_email := None\<rparr>)\<rparr>) domain"
  by (simp add: mapEnrichResponseToData_def mapResponseToEnrichedData_def)

theorem empty_email_is_no_email_witness:
  "mapEnrichResponseToData (sample_response (Some (sample_email (Some []))) (Some sample_company)) ''acme.com'' = None \<and>
   mapEnrichResponseToData (sample_response None (Some sample_company)) ''acme.com'' = None \<and>
   mapResponseToEnrichedData (sample_response (Some (sample_email (Some []))) (Some sample_company)) ''acme.com'' = None \<and>
   mapResponseToEnrichedData (sample_response None (Some sample_company)) ''acme.com'' = None"
proof -
  have p: "person (sample_response (Some (sample_email (Some []))) (Some sample_company)) =
             Some (sample_person (Some (sample_email (Some []))))"
    by (simp add: sample_response_def)
  have e: "rp_email (sample_person (Some (sample_email (Some [])))) = Some (sample_email (Some []))"
    by (simp add: sample_person_def)
  have a: "re_email (sample_email (Some [])) = Some []"
    by (simp add: sample_email_def)
  have r: "(sample_response (Some (sample_email (Some []))) (Some sample_company))
             \<lparr>person := Some ((sample_person (Some (sample_email (Some []))))\<lparr>rp_email := None\<rparr>)\<rparr> =
           sample_response None (Some sample_company)"
    by (simp add: sample_response_def sample_person_def)
  note t = empty_email_is_no_email [OF p e a, of "''acme.com''", unfolded r]
  from t have 1: "mapEnrichResponseToData (sample_response (Some (sample_email (Some []))) (Some sample_company)) ''acme.com'' = None"
    by (rule conjunct1)
  from t have 2: "mapEnrichResponseToData (sample_response (Some (sample_email (Some []))) (Some sample_company)) ''acme.com'' =
      mapEnrichResponseToData (sample_response None (Some sample_company)) ''acme.com''"
    by blast
  from t have 3: "mapResponseToEnrichedData (sample_response (Some (sample_email (Some []))) (Some sample_company)) ''acme.com'' = None"
    by blast
  from t have 4: "mapResponseToEnrichedData (sample_response (Some (sample_email (Some []))) (Some sample_company)) ''acme.com'' =
      mapResponseToEnrichedData (sample_response None (Some sample_company)) ''acme.com''"
    by blast
  show ?thesis
    by (simp only: 2 [symmetric] 4 [symmetric] 1 3)
qed

text \<open>
  C6. Whenever one of the two mappers yields data for a response and a domain, both
  yield that data, and in it the company name, website and domain are the upstream
  values where these are present and not empty; otherwise the name is the input domain,
  the website is \<open>https://\<close> followed by the input domain, and the domain is the input
  domain. With no company object all three are the fallbacks.
\<close>

theorem company_fallbacks:
  assumes "mapEnrichResponseToData response domain = Some d \<or>
           mapResponseToEnrichedData response domain = Some d"
  shows "mapEnrichResponseToData response domain = Some d \<and>
         mapResponseToEnrichedData response domain = Some d \<and>
         (company response = None \<longrightarrow>
            cd_name (ed_company d) = domain \<and>
            cd_website (ed_company d) = ''https://'' @ domain \<and>
            cd_domain (ed_company d) = domain) \<and>
         (\<forall>c. company response = Some c \<longrightarrow>
            cd_name (ed_company d) =
              (if rc_name c = None \<or> rc_name c = Some [] then domain else the (rc_name c)) \<and>
            cd_website (ed_company d) =
              (if rc_website c = None \<or> rc_website c = Some [] then ''https://'' @ domain
               else the (rc_website c)) \<and>
            cd_domain (ed_company d) =
              (if rc_domain c = None \<or> rc_domain c = Some [] then domain else the (rc_domain c)))"
proof -
  have or_string_eq: "\<And>x dflt. or_string x dflt = (if x = None \<or> x = Some [] then dflt else the x)"
    by (case_tac x) auto
  have same: "mapResponseToEnrichedData response domain = mapEnrichResponseToData response domain"
    by (simp add: mapEnrichResponseToData_def mapResponseToEnrichedData_def)
  from assms have both: "mapEnrichResponseToData response domain = Some d"
    "mapResponseToEnrichedData response domain = Some d"
    by (simp_all add: same)
  from both(1) obtain p em addr where d: "d = enriched_record response p em addr domain"
    by (auto simp: mapEnrichResponseToData_def split: option.splits if_splits)
  have fallbacks: "(company response = None \<longrightarrow>
            cd_name (ed_company d) = domain \<and>
            cd_website (ed_company d) = ''https://'' @ domain \<and>
            cd_domain (ed_company d) = domain) \<and>
         (\<forall>c. company response = Some c \<longrightarrow>
            cd_name (ed_company d) =
              (if rc_name c = None \<or> rc_name c = Some [] then domain else the (rc_name c)) \<and>
            cd_website (ed_company d) =
              (if rc_website c = None \<or> rc_website c = Some [] then ''https://'' @ domain
               else the (rc_website c)) \<and>
            cd_domain (ed_company d) =
              (if rc_domain c = None \<or> rc_domain c = Some [] then domain else the (rc_domain c)))"
    by (simp add: d enriched_record_def company_field_def or_string_eq)
  show ?thesis
    by (rule conjI [OF both(1) conjI [OF both(2) fallbacks]])
qed

text \<open>
  Enriching \<open>acme.com\<close> from a response with an email address and no company object:
  both mappers yield the record whose company is named \<open>acme.com\<close>, with website
  \<open>https://acme.com\<close> and domain \<open>acme.com\<close>. From a response whose company object has a
  name and a website but no domain, both yield the record with the upstream name and
  website and the domain \<open>acme.com\<close>.
\<close>

theorem company_fallbacks_witness:
  "mapEnrichResponseToData (sample_response (Some (sample_email (Some ''ada@acme.com''))) None) ''acme.com''
     = Some (enriched_record (sample_response (Some (sample_email (Some ''ada@acme.com''))) None)
               (sample_person (Some (sample_email (Some ''ada@acme.com''))))
               (sample_email (Some ''ada@acme.com'')) ''ada@acme.com'' ''acme.com'') \<and>
   mapResponseToEnrichedData (sample_response (Some (sample_email (Some ''ada@acme.com''))) None) ''acme.com''
     = Some (enriched_record (sample_response (Some (sample_email (Some ''ada@acme.com''))) None)
               (sample_person (Some (sample_email (Some ''ada@acme.com''))))
               (sample_email (Some ''ada@acme.com'')) ''ada@acme.com'' ''acme.com'') \<and>
   cd_name (ed_company (enriched_record (sample_response (Some (sample_email (Some ''ada@acme.com''))) None)
               (sample_person (Some (sample_email (Some ''ada@acme.com''))))
               (sample_email (Some ''ada@acme.com'')) ''ada@acme.com'' ''acme.com'')) = ''acme.com'' \<and>
   cd_website (ed_company (enriched_record (sample_response (Some (sample_email (Some ''ada@acme.com''))) None)
               (sample_person (Some (sample_email (Some ''ada@acme.com''))))
               (sample_email (Some ''ada@acme.com'')) ''ada@acme.com'' ''acme.com'')) = ''https://acme.com'' \<and>
   cd_domain (ed_company (enriched_record (sample_response (Some (sample_email (Some ''ada@acme.com''))) None)
               (sample_person (Some (sample_email (Some ''ada@acme.com''))))
               (sample_email (Some ''ada@acme.com'')) ''ada@acme.com'' ''acme.com'')) = ''acme.com'' \<and>
   mapResponseToEnrichedData (sample_response (Some (sample_email (Some ''ada@acme.com''))) (Some sample_company)) ''acme.com''
     = Some (enriched_record (sample_response (Some (sample_email (Some ''ada@acme.com''))) (Some sample_company))
               (sample_person (Some (sample_email (Some ''ada@acme.com''))))
               (sample_email (Some ''ada@acme.com'')) ''ada@acme.com'' ''acme.com'') \<and>
   mapEnrichResponseToData (sample_response (Some (sample_email (Some ''ada@acme.com''))) (Some sample_company)) ''acme.com''
     = Some (enriched_record (sample_response (Some (sample_email (Some ''ada@acme.com''))) (Some sample_company))
               (sample_person (Some (sample_email (Some ''ada@acme.com''))))
               (sample_email (Some ''ada@acme.com'')) ''ada@acme.com'' ''acme.com'') \<and>
   cd_name (ed_company (enriched_record (sample_response (Some (sample_email (Some ''ada@acme.com''))) (Some sample_company))
               (sample_person (Some (sample_email (Some ''ada@acme.com''))))
               (sample_email (Some ''ada@acme.com'')) ''ada@acme.com'' ''acme.com'')) = ''Acme'' \<and>
   cd_website (ed_company (enriched_record (sample_response (Some (sample_email (Some ''ada@acme.com''))) (Some sample_company))
               (sample_person (Some (sample_email (Some ''ada@acme.com''))))
               (sample_email (Some ''ada@acme.com'')) ''ada@acme.com'' ''acme.com'')) = ''https://www.acme.com'' \<and>
   cd_domain (ed_company (enriched_record (sample_response (Some (sample_email (Some ''ada@acme.com''))) (Some sample_company))
               (sample_person (Some (sample_email (Some ''ada@acme.com''))))
               (sample_email (Some ''ada@acme.com'')) ''ada@acme.com'' ''acme.com'')) = ''acme.com''"
proof -
  let ?p = "sample_person (Some (sample_email (Some ''ada@acme.com'')))"
  let ?e = "sample_email (Some ''ada@acme.com'')"
  let ?r0 = "sample_response (Some ?e) None"
  let ?r1 = "sample_response (Some ?e) (Some sample_company)"
  let ?d0 = "enriched_record ?r0 ?p ?e ''ada@acme.com'' ''acme.com''"
  let ?d1 = "enriched_record ?r1 ?p ?e ''ada@acme.com'' ''acme.com''"
  have m0: "mapEnrichResponseToData ?r0 ''acme.com'' = Some ?d0"
    by (simp add: mapEnrichResponseToData_def sample_response_def sample_person_def sample_email_def)
  have m1: "mapResponseToEnrichedData ?r1 ''acme.com'' = Some ?d1"
    by (simp add: mapResponseToEnrichedData_def sample_response_def sample_person_def sample_email_def)
  have c0: "company ?r0 = None" by (simp add: sample_response_def)
  have c1: "company ?r1 = Some sample_company" by (simp add: sample_response_def)
  have f: "rc_name sample_company = Some ''Acme''" "rc_domain sample_company = None"
    "rc_website sample_company = Some ''https://www.acme.com''"
    by (simp_all add: sample_company_def)
  from company_fallbacks [OF disjI1 [OF m0]] c0
  have a: "mapEnrichResponseToData ?r0 ''acme.com'' = Some ?d0 \<and>
           mapResponseToEnrichedData ?r0 ''acme.com'' = Some ?d0 \<and>
           cd_name (ed_company ?d0) = ''acme.com'' \<and>
           cd_website (ed_company ?d0) = ''https://acme.com'' \<and>
           cd_domain (ed_company ?d0) = ''acme.com''"
    by simp
  from company_fallbacks [OF disjI2 [OF m1]] c1 f
  have b: "mapResponseToEnrichedData ?r1 ''acme.com'' = Some ?d1 \<and>
           mapEnrichResponseToData ?r1 ''acme.com'' = Some ?d1 \<and>
           cd_name (ed_company ?d1) = ''Acme'' \<and>
           cd_website (ed_company ?d1) = ''https://www.acme.com'' \<and>
           cd_domain (ed_company ?d1) = ''acme.com''"
    by simp
  from a b show ?thesis by (simp only: conj_assoc) 
qed

section \<open>The remote lookup client\<close>

text \<open>
  C7. With an API key configured, a reply with status 402 and error code
  \<open>INSUFFICIENT_CREDITS\<close> that carries the balance \<open>b\<close> makes \<open>searchPerson\<close> and
  \<open>enrichPerson\<close> fail with the error "Insufficient credits. You have \<open>b\<close> credits
  remaining.", where \<open>b\<close> is printed as the template literal prints the number. That text
  occurs in the message, and for a balance of magnitude up to \<open>2^53\<close> it is the decimal
  numeral of the balance.
\<close>

theorem insufficient_credits_error:
  assumes key: "getApiKey pref = Inr key"
    and code: "error_code ds = Some ''INSUFFICIENT_CREDITS''" "error_code de = Some ''INSUFFICIENT_CREDITS''"
    and bal: "balance ds = Some b" "balance de = Some b"
    and search: "fetchSearch (search_request url key domain pageArg) = Reply 402 (JsonObject ds)"
    and enrich: "fetchEnrich (enrich_request url key firstName lastName domain) = Reply 402 (JsonObject de)"
  shows "searchPerson url pref fetchSearch domain pageArg =
           Inl (Error (''Insufficient credits. You have '' @ number_to_string b @ '' credits remaining.'')) \<and>
         enrichPerson url pref fetchEnrich firstName lastName domain =
           Inl (Error (''Insufficient credits. You have '' @ number_to_string b @ '' credits remaining.'')) \<and>
         sublist (number_to_string b)
           (''Insufficient credits. You have '' @ number_to_string b @ '' credits remaining.'') \<and>
         (\<bar>b\<bar> \<le> 2 ^ 53 \<longrightarrow> number_to_string b = decimal b)"
proof -
  have "sublist (number_to_string b)
           (''Insufficient credits. You have '' @ number_to_string b @ '' credits remaining.'')"
    by (rule sublist_appendI)
  moreover have "searchPerson url pref fetchSearch domain pageArg =
           Inl (Error (''Insufficient credits. You have '' @ number_to_string b @ '' credits remaining.''))"
    using key code(1) bal(1) search
    by (simp add: searchPerson_def after_fetch_def check_reply_def)
  moreover have "enrichPerson url pref fetchEnrich firstName lastName domain =
           Inl (Error (''Insufficient credits. You have '' @ number_to_string b @ '' credits remaining.''))"
    using key code(2) bal(2) enrich
    by (simp add: enrichPerson_def after_fetch_def check_reply_def)
  moreover have "\<bar>b\<bar> \<le> 2 ^ 53 \<longrightarrow> number_to_string b = decimal b"
    by (simp add: number_to_string_def)
  ultimately show ?thesis by simp
qed

text \<open>
  A balance of 3: both lookups fail with a message that contains "3". A balance of
  \<open>2^60\<close>: both fail with a message that contains "1152921504606847000".
\<close>

theorem insufficient_credits_error_witness:
  "searchPerson ''https://api.example'' (Some '' k1 '')
     (\<lambda>r. Reply 402 (JsonObject (insufficient_reply 3 \<lparr>results = None, pagination = None\<rparr>)))
     ''acme.com'' (Some 1) =
     Inl (Error ''Insufficient credits. You have 3 credits remaining.'') \<and>
   enrichPerson ''https://api.example'' (Some '' k1 '')
     (\<lambda>r. Reply 402 (JsonObject (insufficient_reply 3 \<lparr>person = None, company = None\<rparr>)))
     ''Ada'' ''Lovelace'' ''acme.com'' =
     Inl (Error ''Insufficient credits. You have 3 credits remaining.'') \<and>
   sublist ''3'' ''Insufficient credits. You have 3 credits remaining.'' \<and>
   searchPerson ''https://api.example'' (Some '' k1 '')
     (\<lambda>r. Reply 402 (JsonObject (insufficient_reply 1152921504606846976 \<lparr>results = None, pagination = None\<rparr>)))
     ''acme.com'' (Some 1) =
     Inl (Error ''Insufficient credits. You have 1152921504606847000 credits remaining.'') \<and>
   enrichPerson ''https://api.example'' (Some '' k1 '')
     (\<lambda>r. Reply 402 (JsonObject (insufficient_reply 1152921504606846976 \<lparr>person = None, company = None\<rparr>)))
     ''Ada'' ''Lovelace'' ''acme.com'' =
     Inl (Error ''Insufficient credits. You have 1152921504606847000 credits remaining.'')"
proof -
  have n: "number_to_string 3 = ''3''"
    by (simp add: number_to_string_def decimal_def show_nat.simps digit_char_def)
  have c: "\<And>b. error_code (insufficient_reply b \<lparr>results = None, pagination = None\<rparr>) = Some ''INSUFFICIENT_CREDITS''"
    "\<And>b. error_code (insufficient_reply b \<lparr>person = None, company = None\<rparr>) = Some ''INSUFFICIENT_CREDITS''"
    by (simp_all add: insufficient_reply_def)
  have b: "\<And>b. balance (insufficient_reply b \<lparr>results = None, pagination = None\<rparr>) = Some b"
    "\<And>b. balance (insufficient_reply b \<lparr>person = None, company = None\<rparr>) = Some b"
    by (simp_all add: insufficient_reply_def)
  note small_case = insufficient_credits_error
    [of "Some '' k1 ''" "''k1''"
        "insufficient_reply 3 \<lparr>results = None, pagination = None\<rparr>"
        "insufficient_reply 3 \<lparr>person = None, company = None\<rparr>" 3
        "\<lambda>r. Reply 402 (JsonObject (insufficient_reply 3 \<lparr>results = None, pagination = None\<rparr>))"
        "''https://api.example''" "''acme.com''" "Some 1"
        "\<lambda>r. Reply 402 (JsonObject (insufficient_reply 3 \<lparr>person = None, company = None\<rparr>))"
        "''Ada''" "''Lovelace''",
      OF getApiKey_sample c b refl refl]
  have small: "searchPerson ''https://api.example'' (Some '' k1 '')
     (\<lambda>r. Reply 402 (JsonObject (insufficient_reply 3 \<lparr>results = None, pagination = None\<rparr>)))
     ''acme.com'' (Some 1) =
     Inl (Error ''Insufficient credits. You have 3 credits remaining.'') \<and>
   enrichPerson ''https://api.example'' (Some '' k1 '')
     (\<lambda>r. Reply 402 (JsonObject (insufficient_reply 3 \<lparr>person = None, company = None\<rparr>)))
     ''Ada'' ''Lovelace'' ''acme.com'' =
     Inl (Error ''Insufficient credits. You have 3 credits remaining.'') \<and>
   sublist ''3'' ''Insufficient credits. You have 3 credits remaining.''"
    using small_case [THEN conjunct1] small_case [THEN conjunct2, THEN conjunct1]
      small_case [THEN conjunct2, THEN conjunct2, THEN conjunct1]
    by (simp add: n)
  note large_case = insufficient_credits_error
    [of "Some '' k1 ''" "''k1''"
        "insufficient_reply 1152921504606846976 \<lparr>results = None, pagination = None\<rparr>"
        "insufficient_reply 1152921504606846976 \<lparr>person = None, company = None\<rparr>" 1152921504606846976
        "\<lambda>r. Reply 402 (JsonObject (insufficient_reply 1152921504606846976 \<lparr>results = None, pagination = None\<rparr>))"
        "''https://api.example''" "''acme.com''" "Some 1"
        "\<lambda>r. Reply 402 (JsonObject (insufficient_reply 1152921504606846976 \<lparr>person = None, company = None\<rparr>))"
        "''Ada''" "''Lovelace''",
      OF getApiKey_sample c b refl refl]
  have large: "searchPerson ''https://api.example'' (Some '' k1 '')
     (\<lambda>r. Reply 402 (JsonObject (insufficient_reply 1152921504606846976 \<lparr>results = None, pagination = None\<rparr>)))
     ''acme.com'' (Some 1) =
     Inl (Error ''Insufficient credits. You have 1152921504606847000 credits remaining.'') \<and>
   enrichPerson ''https://api.example'' (Some '' k1 '')
     (\<lambda>r. Reply 402 (JsonObject (insufficient_reply 1152921504606846976 \<lparr>person = None, company = None\<rparr>)))
     ''Ada'' ''Lovelace'' ''acme.com'' =
     Inl (Error ''Insufficient credits. You have 1152921504606847000 credits remaining.'')"
    using large_case [THEN conjunct1] large_case [THEN conjunct2, THEN conjunct1]
    by (simp add: number_to_string_two_to_60)
  from small large show ?thesis by (simp only: conj_assoc)
qed

section \<open>Grouping by department\<close>

lemma keys_add_to_department:
  "fst ` set (add_to_department e m d) = insert d (fst ` set m)"
  by (simp add: add_to_department_def Let_def dom_update)

lemma distinct_add_to_department:
  "distinct (map fst m) \<Longrightarrow> distinct (map fst (add_to_department e m d))"
  by (simp add: add_to_department_def Let_def distinct_update)

lemma filed_under_add_to_department:
  "filed_under (add_to_department e m d) d' =
     (if d' = d then filed_under m d @ [e] else filed_under m d')"
  by (simp add: add_to_department_def filed_under_def Let_def update_conv')

lemma keys_add_employee:
  "fst ` set (foldl (add_to_department e) m ds) = fst ` set m \<union> set ds"
  by (induction ds arbitrary: m) (auto simp: keys_add_to_department)

lemma distinct_add_employee:
  "distinct (map fst m) \<Longrightarrow> distinct (map fst (foldl (add_to_department e) m ds))"
  by (induction ds arbitrary: m) (simp_all add: distinct_add_to_department)

lemma filed_under_add_employee:
  "set (filed_under (foldl (add_to_department e) m ds) d) =
     set (filed_under m d) \<union> (if d \<in> set ds then {e} else {})"
  by (induction ds arbitrary: m) (auto simp: filed_under_add_to_department)

lemma keys_foldl_employees:
  "fst ` set (foldl (\<lambda>m e. foldl (add_to_department e) m (emp_departments e)) m es) =
     fst ` set m \<union> (\<Union>e\<in>set es. set (emp_departments e))"
  by (induction es arbitrary: m) (auto simp: keys_add_employee)

lemma distinct_foldl_employees:
  "distinct (map fst m) \<Longrightarrow>
     distinct (map fst (foldl (\<lambda>m e. foldl (add_to_department e) m (emp_departments e)) m es))"
  by (induction es arbitrary: m) (simp_all add: distinct_add_employee)

lemma filed_under_foldl_employees:
  "set (filed_under (foldl (\<lambda>m e. foldl (add_to_department e) m (emp_departments e)) m es) d) =
     set (filed_under m d) \<union> {e \<in> set es. d \<in> set (emp_departments e)}"
  by (induction es arbitrary: m) (auto simp: filed_under_add_employee)

lemma keys_build_department_map:
  "set (map fst (build_department_map es)) = (\<Union>e\<in>set es. set (emp_departments e))"
  using keys_foldl_employees [of "[]" es] by (simp add: build_department_map_def)

lemma distinct_build_department_map: "distinct (map fst (build_department_map es))"
  using distinct_foldl_employees [of "[]" es] by (simp add: build_department_map_def)

lemma filed_under_build_department_map:
  "set (filed_under (build_department_map es) d) = {e \<in> set es. d \<in> set (emp_departments e)}"
  using filed_under_foldl_employees [of "[]" es d]
  by (simp add: build_department_map_def filed_under_def)

lemma group_names:
  "map dg_name (groupByDepartment lc es) =
     sort_by (department_order lc) (map fst (build_department_map es))"
  by (simp add: groupByDepartment_def Let_def comp_def)

lemma group_members:
  "g \<in> set (groupByDepartment lc es) \<Longrightarrow>
     set (dg_employees g) = {e \<in> set es. dg_name g \<in> set (emp_departments e)}"
  by (auto simp: groupByDepartment_def Let_def filed_under_build_department_map [unfolded filed_under_def])

lemma group_exists:
  assumes "d \<in> (\<Union>e\<in>set es. set (emp_departments e))"
  shows "\<exists>g\<in>set (groupByDepartment lc es). dg_name g = d"
proof -
  from assms have "d \<in> set (map dg_name (groupByDepartment lc es))"
    by (simp only: group_names set_sort_by keys_build_department_map)
  then show ?thesis by auto
qed

lemma distinct_group_names: "distinct (map dg_name (groupByDepartment lc es))"
  by (simp only: group_names distinct_sort_by distinct_build_department_map)

lemma sorted_group_names:
  assumes "\<forall>a b. lc a b \<ge> 0 \<longrightarrow> lc b a \<le> 0"
    and "\<forall>a b c. lc a b \<le> 0 \<and> lc b c \<le> 0 \<longrightarrow> lc a c \<le> 0"
  shows "sorted_wrt (other_last lc) (map dg_name (groupByDepartment lc es))"
  unfolding group_names
proof (rule sorted_wrt_sort_by [where S = UNIV])
  show "set (map fst (build_department_map es)) \<subseteq> UNIV" by simp
next
  fix x y :: string
  assume "department_order lc x y < 0"
  then show "other_last lc x y"
    by (simp add: department_order_def other_last_def split: if_splits)
next
  fix x y :: string
  assume n: "\<not> department_order lc x y < 0"
  show "other_last lc y x"
  proof (cases "x = ''Other''")
    case True
    then show ?thesis by (simp add: other_last_def)
  next
    case False
    with n have y: "y \<noteq> ''Other''" and "lc x y \<ge> 0"
      by (simp_all add: department_order_def split: if_splits)
    with assms(1) have "lc y x \<le> 0" by blast
    with False y show ?thesis by (simp add: other_last_def)
  qed
next
  fix x y z :: string
  assume xy: "other_last lc x y" and yz: "other_last lc y z"
  show "other_last lc x z"
  proof (cases "z = ''Other''")
    case True
    then show ?thesis by (simp add: other_last_def)
  next
    case False
    with yz have y: "y \<noteq> ''Other''" and 1: "lc y z \<le> 0"
      by (simp_all add: other_last_def split: if_splits)
    with xy have x: "x \<noteq> ''Other''" and 2: "lc x y \<le> 0"
      by (simp_all add: other_last_def split: if_splits)
    from 1 2 assms(2) have "lc x z \<le> 0" by blast
    with False x show ?thesis by (simp add: other_last_def)
  qed
qed

lemma other_is_last:
  assumes "sorted_wrt (other_last lc) xs" and "distinct xs"
  shows "xs = filter (\<lambda>n. n \<noteq> ''Other'') xs @ (if ''Other'' \<in> set xs then [''Other''] else [])"
  using assms
proof (induction xs)
  case Nil
  show ?case by simp
next
  case (Cons x xs)
  show ?case
  proof (cases "x = ''Other''")
    case True
    have "xs = []"
    proof (cases xs)
      case Nil
      then show ?thesis .
    next
      case (Cons y ys)
      with Cons.prems True have "other_last lc ''Other'' y" and "''Other'' \<noteq> y"
        by simp_all
      then have "other_last lc ''Other'' y" and "y \<noteq> ''Other''"
        by blast+
      then show ?thesis by (simp add: other_last_def)
    qed
    with True show ?thesis by simp
  next
    case False
    from Cons.prems have "sorted_wrt (other_last lc) xs" and "distinct xs" by simp_all
    then have "xs = filter (\<lambda>n. n \<noteq> ''Other'') xs @ (if ''Other'' \<in> set xs then [''Other''] else [])"
      by (rule Cons.IH)
    with False show ?thesis by simp
  qed
qed

lemma sorted_without_other:
  assumes "sorted_wrt (other_last lc) xs"
  shows "sorted_wrt (\<lambda>a b. lc a b \<le> 0) (filter (\<lambda>n. n \<noteq> ''Other'') xs)"
proof -
  from assms have "sorted_wrt (other_last lc) (filter (\<lambda>n. n \<noteq> ''Other'') xs)"
    by (rule sorted_wrt_filter)
  then show ?thesis
  proof (rule sorted_wrt_mono_rel [rotated])
    fix a b
    assume "a \<in> set (filter (\<lambda>n. n \<noteq> ''Other'') xs)" "b \<in> set (filter (\<lambda>n. n \<noteq> ''Other'') xs)"
      "other_last lc a b"
    then show "lc a b \<le> 0" by (simp add: other_last_def split: if_splits)
  qed
qed

lemma code_unit_compare_antisym: "code_unit_compare a b \<ge> 0 \<Longrightarrow> code_unit_compare b a \<le> 0"
  by (simp add: code_unit_compare_def split: if_splits)

lemma code_unit_compare_trans:
  "code_unit_compare a b \<le> 0 \<Longrightarrow> code_unit_compare b c \<le> 0 \<Longrightarrow> code_unit_compare a c \<le> 0"
proof -
  assume "code_unit_compare a b \<le> 0" "code_unit_compare b c \<le> 0"
  then have "(map of_char a :: nat list) \<le> map of_char b" "(map of_char b :: nat list) \<le> map of_char c"
    by (simp_all add: code_unit_compare_def not_less split: if_splits)
  then have "(map of_char a :: nat list) \<le> map of_char c" by (rule order_trans)
  then show ?thesis by (simp add: code_unit_compare_def not_less)
qed

text \<open>
  C2. For a \<open>localeCompare\<close> that orders the names (whenever it does not put \<open>a\<close> before
  \<open>b\<close> it does not put \<open>b\<close> after \<open>a\<close>, and it is transitive), the group names are the
  department names of the employees, each once; the names other than \<open>Other\<close> come
  first, ascending by \<open>localeCompare\<close>, and \<open>Other\<close>, when some employee is filed under
  it, is the last name.
\<close>

theorem department_groups_sorted_other_last:
  assumes "\<forall>a b. localeCompare a b \<ge> 0 \<longrightarrow> localeCompare b a \<le> 0"
    and "\<forall>a b c. localeCompare a b \<le> 0 \<and> localeCompare b c \<le> 0 \<longrightarrow> localeCompare a c \<le> 0"
  shows "sorted_wrt (\<lambda>a b. localeCompare a b \<le> 0)
           (filter (\<lambda>n. n \<noteq> ''Other'') (map dg_name (groupByDepartment localeCompare es))) \<and>
         map dg_name (groupByDepartment localeCompare es) =
           filter (\<lambda>n. n \<noteq> ''Other'') (map dg_name (groupByDepartment localeCompare es)) @
           (if ''Other'' \<in> set (map dg_name (groupByDepartment localeCompare es)) then [''Other''] else []) \<and>
         distinct (map dg_name (groupByDepartment localeCompare es)) \<and>
         set (map dg_name (groupByDepartment localeCompare es)) = (\<Union>e\<in>set es. set (emp_departments e))"
proof -
  let ?names = "map dg_name (groupByDepartment localeCompare es)"
  have s: "sorted_wrt (other_last localeCompare) ?names"
    using assms by (rule sorted_group_names)
  have d: "distinct ?names" by (rule distinct_group_names)
  have 1: "sorted_wrt (\<lambda>a b. localeCompare a b \<le> 0) (filter (\<lambda>n. n \<noteq> ''Other'') ?names)"
    using s by (rule sorted_without_other)
  have 2: "?names = filter (\<lambda>n. n \<noteq> ''Other'') ?names @ (if ''Other'' \<in> set ?names then [''Other''] else [])"
    using s d by (rule other_is_last)
  have 3: "set ?names = (\<Union>e\<in>set es. set (emp_departments e))"
    by (simp only: group_names set_sort_by keys_build_department_map)
  show ?thesis
    by (rule conjI [OF 1 conjI [OF 2 conjI [OF d 3]]])
qed

text \<open>
  Employees whose departments come up in the order \<open>Other\<close>, \<open>Zeta\<close>, \<open>Alpha\<close>, the
  first of them with no department of its own: the groups are \<open>Alpha\<close>, \<open>Zeta\<close>, \<open>Other\<close>.
\<close>

theorem department_groups_sorted_other_last_witness:
  "map dg_name (groupByDepartment code_unit_compare
     [sample_employee ''1'' [''Other''], sample_employee ''2'' [''Zeta''], sample_employee ''3'' [''Alpha'']])
     = [''Alpha'', ''Zeta'', ''Other''] \<and>
   sorted_wrt (\<lambda>a b. code_unit_compare a b \<le> 0)
     (filter (\<lambda>n. n \<noteq> ''Other'') (map dg_name (groupByDepartment code_unit_compare
        [sample_employee ''1'' [''Other''], sample_employee ''2'' [''Zeta''], sample_employee ''3'' [''Alpha'']]))) \<and>
   distinct (map dg_name (groupByDepartment code_unit_compare
     [sample_employee ''1'' [''Other''], sample_employee ''2'' [''Zeta''], sample_employee ''3'' [''Alpha'']]))"
proof -
  have a: "\<forall>a b. code_unit_compare a b \<ge> 0 \<longrightarrow> code_unit_compare b a \<le> 0"
    by (simp add: code_unit_compare_antisym)
  have t: "\<forall>a b c. code_unit_compare a b \<le> 0 \<and> code_unit_compare b c \<le> 0 \<longrightarrow> code_unit_compare a c \<le> 0"
    using code_unit_compare_trans by blast
  have run: "map dg_name (groupByDepartment code_unit_compare
     [sample_employee ''1'' [''Other''], sample_employee ''2'' [''Zeta''], sample_employee ''3'' [''Alpha'']])
     = [''Alpha'', ''Zeta'', ''Other'']"
    by (simp add: groupByDepartment_def build_department_map_def add_to_department_def
        sort_by_def department_order_def code_unit_compare_def sample_employee_def)
  from department_groups_sorted_other_last [OF a t,
      of "[sample_employee ''1'' [''Other''], sample_employee ''2'' [''Zeta''], sample_employee ''3'' [''Alpha'']]"]
    run
  show ?thesis by blast
qed

text \<open>
  C9. An employee of the list is in the group of each of its departments, and in no
  other group; when its departments are pairwise different, the groups it is in are as
  many as its departments.
\<close>

theorem employee_in_each_department_group:
  assumes "e \<in> set es"
  shows "(\<forall>d \<in> set (emp_departments e).
            \<exists>g \<in> set (groupByDepartment localeCompare es). dg_name g = d \<and> e \<in> set (dg_employees g)) \<and>
         (\<forall>g \<in> set (groupByDepartment localeCompare es).
            e \<in> set (dg_employees g) \<longleftrightarrow> dg_name g \<in> set (emp_departments e)) \<and>
         (distinct (emp_departments e) \<longrightarrow>
            length (filter (\<lambda>g. e \<in> set (dg_employees g)) (groupByDepartment localeCompare es)) =
              length (emp_departments e))"
proof -
  let ?G = "groupByDepartment localeCompare es"
  let ?D = "set (emp_departments e)"
  have member: "\<And>g. g \<in> set ?G \<Longrightarrow> e \<in> set (dg_employees g) \<longleftrightarrow> dg_name g \<in> ?D"
    using assms by (simp add: group_members)
  have 1: "\<forall>d \<in> ?D. \<exists>g \<in> set ?G. dg_name g = d \<and> e \<in> set (dg_employees g)"
  proof
    fix d assume d: "d \<in> ?D"
    with assms have "d \<in> (\<Union>e\<in>set es. set (emp_departments e))" by blast
    then obtain g where g: "g \<in> set ?G" "dg_name g = d"
      using group_exists [of d es localeCompare] by blast
    with d member [of g] have "e \<in> set (dg_employees g)" by simp
    with g show "\<exists>g \<in> set ?G. dg_name g = d \<and> e \<in> set (dg_employees g)" by blast
  qed
  have 2: "\<forall>g \<in> set ?G. e \<in> set (dg_employees g) \<longleftrightarrow> dg_name g \<in> ?D"
    using member by blast
  have 3: "distinct (emp_departments e) \<longrightarrow>
             length (filter (\<lambda>g. e \<in> set (dg_employees g)) ?G) = length (emp_departments e)"
  proof
    assume dist: "distinct (emp_departments e)"
    have sub: "?D \<subseteq> set (map dg_name ?G)"
      using assms by (auto simp only: group_names set_sort_by keys_build_department_map)
    have "filter (\<lambda>g. e \<in> set (dg_employees g)) ?G = filter (\<lambda>g. dg_name g \<in> ?D) ?G"
      using member by (intro filter_cong) simp_all
    then have "length (filter (\<lambda>g. e \<in> set (dg_employees g)) ?G) =
                 length (map dg_name (filter (\<lambda>g. dg_name g \<in> ?D) ?G))"
      by simp
    also have "map dg_name (filter (\<lambda>g. dg_name g \<in> ?D) ?G) = filter (\<lambda>n. n \<in> ?D) (map dg_name ?G)"
      by (simp add: filter_map comp_def)
    also have "length (filter (\<lambda>n. n \<in> ?D) (map dg_name ?G)) = card ({n. n \<in> ?D} \<inter> set (map dg_name ?G))"
      using distinct_group_names by (rule distinct_length_filter)
    also have "{n. n \<in> ?D} \<inter> set (map dg_name ?G) = ?D"
      using sub by blast
    also have "card ?D = length (emp_departments e)"
      using dist by (rule distinct_card)
    finally show "length (filter (\<lambda>g. e \<in> set (dg_employees g)) ?G) = length (emp_departments e)" .
  qed
  show ?thesis
    by (rule conjI [OF 1 conjI [OF 2 3]])
qed

text \<open>An employee of Sales and Marketing is in both groups, which are two.\<close>

theorem employee_in_each_department_group_witness:
  "groupByDepartment code_unit_compare [sample_employee ''1'' [''Sales'', ''Marketing'']] =
     [\<lparr>dg_name = ''Marketing'', dg_employees = [sample_employee ''1'' [''Sales'', ''Marketing'']]\<rparr>,
      \<lparr>dg_name = ''Sales'', dg_employees = [sample_employee ''1'' [''Sales'', ''Marketing'']]\<rparr>] \<and>
   length (filter (\<lambda>g. sample_employee ''1'' [''Sales'', ''Marketing''] \<in> set (dg_employees g))
     (groupByDepartment code_unit_compare [sample_employee ''1'' [''Sales'', ''Marketing'']])) = 2"
proof -
  let ?e = "sample_employee ''1'' [''Sales'', ''Marketing'']"
  have ds: "emp_departments ?e = [''Sales'', ''Marketing'']"
    by (simp add: sample_employee_def)
  have run: "groupByDepartment code_unit_compare [?e] =
     [\<lparr>dg_name = ''Marketing'', dg_employees = [?e]\<rparr>, \<lparr>dg_name = ''Sales'', dg_employees = [?e]\<rparr>]"
    by (simp add: groupByDepartment_def build_department_map_def add_to_department_def
        sort_by_def department_order_def code_unit_compare_def ds)
  have "?e \<in> set [?e]" by simp
  from employee_in_each_department_group [OF this, of code_unit_compare]
  have "distinct (emp_departments ?e) \<longrightarrow>
          length (filter (\<lambda>g. ?e \<in> set (dg_employees g)) (groupByDepartment code_unit_compare [?e])) =
            length (emp_departments ?e)"
    by blast
  then have "length (filter (\<lambda>g. ?e \<in> set (dg_employees g)) (groupByDepartment code_unit_compare [?e])) = 2"
    by (simp add: ds)
  with run show ?thesis by (rule conjI)
qed

section \<open>The employee list view\<close>

lemma loadMoreEmployees_returned:
  assumes "currentPage v < totalPages v" and "\<not> isLoading v"
    and "searchPerson url pref fetch initialDomain (Some (currentPage v + 1)) = Inr response"
  shows "loadMoreEmployees url pref fetch refetched initialDomain v =
           (load_more_succeeded response
              (showToast Animated ''Loading more...''
                 (''Page '' @ number_to_string (currentPage v + 1)) (v\<lparr>isLoading := True\<rparr>)))
           \<lparr>isLoading := False\<rparr>"
  using assms by (simp add: loadMoreEmployees_def Let_def)


lemma take_balance_fields:
  "employees (take_balance r v) = employees v"
  "currentPage (take_balance r v) = currentPage v"
  "totalPages (take_balance r v) = totalPages v"
  by (simp_all add: take_balance_def split: option.splits)

lemma showToast_fields:
  "employees (showToast s t m v) = employees v"
  "currentPage (showToast s t m v) = currentPage v"
  "totalPages (showToast s t m v) = totalPages v"
  by (simp_all add: showToast_def)

lemma load_more_succeeded_fields:
  "employees (load_more_succeeded response v) =
     employees v @ filter (\<lambda>e. emp_id e \<notin> set (map emp_id (employees v)))
                     (mapSearchResponseToEmployees response)"
  "currentPage (load_more_succeeded response v) =
     (case pagination response of None \<Rightarrow> currentPage v + 1 | Some p \<Rightarrow> page p)"
  "totalPages (load_more_succeeded response v) = totalPages v"
  by (simp_all add: load_more_succeeded_def Let_def showToast_fields take_balance_fields)


lemma employee_of_sample_result: "employee_of (sample_result i) = sample_employee i [''Other'']"
  by (simp add: employee_of_def sample_result_def sample_employee_def)

lemma searchPerson_sample_page:
  "searchPerson url (Some '' k1 '') (\<lambda>r. Reply 200 (JsonObject (sample_page ids pg))) domain pageArg =
     Inr (sample_page ids pg)"
  by (simp add: searchPerson_def getApiKey_sample after_fetch_def check_reply_def response_ok_def
      sample_page_def)

text \<open>
  C1. When a further page is loaded, the accumulated employees are the employees held
  before, in their order, followed by those employees of the new page whose id none of
  them has, in the order of the page. If the ids held before are pairwise different and
  so are the ids of the page, the ids held afterwards are pairwise different.
\<close>

theorem load_more_appends_unseen:
  assumes "currentPage v < totalPages v" and "\<not> isLoading v"
    and "searchPerson url pref fetch initialDomain (Some (currentPage v + 1)) = Inr response"
  shows "employees (loadMoreEmployees url pref fetch refetched initialDomain v) =
           employees v @ filter (\<lambda>e. emp_id e \<notin> emp_id ` set (employees v))
                           (mapSearchResponseToEmployees response) \<and>
         take (length (employees v)) (employees (loadMoreEmployees url pref fetch refetched initialDomain v))
           = employees v \<and>
         subseq (drop (length (employees v))
                   (employees (loadMoreEmployees url pref fetch refetched initialDomain v)))
           (mapSearchResponseToEmployees response) \<and>
         (distinct (map emp_id (employees v)) \<and> distinct (map emp_id (mapSearchResponseToEmployees response))
            \<longrightarrow> distinct (map emp_id (employees (loadMoreEmployees url pref fetch refetched initialDomain v))))"
proof -
  have e: "employees (loadMoreEmployees url pref fetch refetched initialDomain v) =
           employees v @ filter (\<lambda>e. emp_id e \<notin> emp_id ` set (employees v))
                           (mapSearchResponseToEmployees response)"
    by (simp add: loadMoreEmployees_returned [OF assms] load_more_succeeded_fields showToast_fields)
  have d: "distinct (map emp_id (employees v)) \<and> distinct (map emp_id (mapSearchResponseToEmployees response))
            \<longrightarrow> distinct (map emp_id (employees v @ filter (\<lambda>e. emp_id e \<notin> emp_id ` set (employees v))
                           (mapSearchResponseToEmployees response)))"
    by (auto simp: distinct_map_filter) (metis imageI)
  show ?thesis
    unfolding e using d by simp
qed

text \<open>
  With \<open>a\<close> and \<open>b\<close> held from page 1 and a page 2 that holds \<open>b\<close> and \<open>c\<close>, the
  employees are \<open>a\<close>, \<open>b\<close>, \<open>c\<close>.
\<close>

theorem load_more_appends_unseen_witness:
  "employees (loadMoreEmployees ''https://api.example'' (Some '' k1 '')
      (\<lambda>r. Reply 200 (JsonObject (sample_page [''b'', ''c''] (Some \<lparr>total_results = 4, page = 2, total_pages = 2\<rparr>))))
      None ''acme.com'' (sample_view [''a'', ''b''] 1 2)) =
     [sample_employee ''a'' [''Other''], sample_employee ''b'' [''Other''], sample_employee ''c'' [''Other'']] \<and>
   map emp_id (employees (loadMoreEmployees ''https://api.example'' (Some '' k1 '')
      (\<lambda>r. Reply 200 (JsonObject (sample_page [''b'', ''c''] (Some \<lparr>total_results = 4, page = 2, total_pages = 2\<rparr>))))
      None ''acme.com'' (sample_view [''a'', ''b''] 1 2))) = [''a'', ''b'', ''c'']"
proof -
  let ?pg = "Some \<lparr>total_results = 4, page = 2, total_pages = 2\<rparr>"
  let ?v = "sample_view [''a'', ''b''] 1 2"
  have g: "currentPage ?v < totalPages ?v" "\<not> isLoading ?v"
    by (simp_all add: sample_view_def)
  have s: "searchPerson ''https://api.example'' (Some '' k1 '')
             (\<lambda>r. Reply 200 (JsonObject (sample_page [''b'', ''c''] ?pg))) ''acme.com''
             (Some (currentPage ?v + 1)) = Inr (sample_page [''b'', ''c''] ?pg)"
    by (rule searchPerson_sample_page)
  have m: "mapSearchResponseToEmployees (sample_page [''b'', ''c''] ?pg) =
             [sample_employee ''b'' [''Other''], sample_employee ''c'' [''Other'']]"
    by (simp add: mapSearchResponseToEmployees_def sample_page_def employee_of_sample_result)
  have v: "employees ?v = [sample_employee ''a'' [''Other''], sample_employee ''b'' [''Other'']]"
    by (simp add: sample_view_def)
  from load_more_appends_unseen [OF g s, of None]
  have "employees (loadMoreEmployees ''https://api.example'' (Some '' k1 '')
      (\<lambda>r. Reply 200 (JsonObject (sample_page [''b'', ''c''] ?pg))) None ''acme.com'' ?v) =
        employees ?v @ filter (\<lambda>e. emp_id e \<notin> emp_id ` set (employees ?v))
                           (mapSearchResponseToEmployees (sample_page [''b'', ''c''] ?pg))"
    by (rule conjunct1)
  then have "employees (loadMoreEmployees ''https://api.example'' (Some '' k1 '')
      (\<lambda>r. Reply 200 (JsonObject (sample_page [''b'', ''c''] ?pg))) None ''acme.com'' ?v) =
     [sample_employee ''a'' [''Other''], sample_employee ''b'' [''Other''], sample_employee ''c'' [''Other'']]"
    by (simp add: m v sample_employee_def)
  then show ?thesis by (simp add: sample_employee_def)
qed




end
